theory Spec2Isabelle
  imports Complex_Main "HOL-Library.Log_Nat"
begin

section \<open>Data model of \<open>backend/server.py\<close>\<close>

text \<open>
  Identifiers, timestamps, e-mail addresses and status values are Python strings. The
  documents of the four collections carry exactly the fields that the creating mutation
  stores; the driver's \<open>_id\<close> field is never read by the program and is left out.
\<close>

record user =
  usr_id :: string
  usr_email :: string
  usr_name :: string
  usr_created_at :: string

record organization =
  org_id :: string
  org_user_id :: string
  org_name :: string
  org_slug :: string
  org_contact_email :: string
  org_created_at :: string

record project =
  proj_id :: string
  proj_organization_id :: string
  proj_name :: string
  proj_description :: string
  proj_status :: string
  proj_due_date :: "string option"
  proj_created_at :: string

record task =
  task_id :: string
  task_project_id :: string
  task_title :: string
  task_description :: string
  task_status :: string
  task_assignee_email :: string
  task_due_date :: "string option"
  task_created_at :: string

record comment =
  comment_id :: string
  comment_task_id :: string
  comment_content :: string
  comment_author_email :: string
  comment_created_at :: string

text \<open>
  Every \<open>raise Exception("...")\<close> of the source is the value \<open>Exception msg\<close> with the
  source's message. \<open>ValueError\<close> is what \<open>list.remove\<close> raises for an absent element,
  \<open>TypeError\<close> what \<open>Task(**None)\<close> raises. \<open>CancelledError\<close> is
  \<open>asyncio.CancelledError\<close>, raised at an \<open>await\<close> when the task is cancelled;
  \<open>GeneratorExit\<close> is raised at a \<open>yield\<close> when the generator is closed. Neither of the
  two is a subclass of the other.
\<close>

datatype error = Exception string | ValueError | TypeError | CancelledError | GeneratorExit

section \<open>The document store\<close>

text \<open>
  A collection is the list of its documents in insertion order. The filters of the source
  are exact matches, passed here as predicates.
\<close>

definition find_one :: "('a \<Rightarrow> bool) \<Rightarrow> 'a list \<Rightarrow> 'a option" where
  "find_one P xs = List.find P xs"

text \<open>\<open>find(filter).to_list(n)\<close>: at most \<open>n\<close> matching documents.\<close>

definition find_to_list :: "('a \<Rightarrow> bool) \<Rightarrow> nat \<Rightarrow> 'a list \<Rightarrow> 'a list" where
  "find_to_list P n xs = take n (filter P xs)"

definition count_documents :: "('a \<Rightarrow> bool) \<Rightarrow> 'a list \<Rightarrow> nat" where
  "count_documents P xs = length (filter P xs)"

definition insert_one :: "'a \<Rightarrow> 'a list \<Rightarrow> 'a list" where
  "insert_one d xs = xs @ [d]"

fun update_one :: "('a \<Rightarrow> bool) \<Rightarrow> ('a \<Rightarrow> 'a) \<Rightarrow> 'a list \<Rightarrow> 'a list" where
  "update_one P f [] = []"
| "update_one P f (x # xs) = (if P x then f x # xs else x # update_one P f xs)"

fun delete_one :: "('a \<Rightarrow> bool) \<Rightarrow> 'a list \<Rightarrow> 'a list" where
  "delete_one P [] = []"
| "delete_one P (x # xs) = (if P x then xs else x # delete_one P xs)"

definition delete_many :: "('a \<Rightarrow> bool) \<Rightarrow> 'a list \<Rightarrow> 'a list" where
  "delete_many P xs = filter (\<lambda>x. \<not> P x) xs"

text \<open>
  The write calls that reach the driver, with the collection they go to. The trace is
  what an observer of the store sees; it lets a theorem tell a skipped write from a write
  that happens to store the old values.
\<close>

datatype write_call =
  Insert_one string | Update_one string | Delete_one string | Delete_many string

section \<open>The subscription manager\<close>

text \<open>
  An event is the dictionary \<open>{"type": event_type, "data": data}\<close> that \<open>broadcast\<close>
  puts on a queue; \<open>data\<close> is a small dictionary of strings.
\<close>

record event =
  ev_type :: string
  ev_data :: "(string \<times> string) list"

text \<open>
  The state of the process: the four collections and the write trace, the
  \<open>connections\<close> dictionary of the one \<open>SubscriptionManager\<close>, and the
  \<open>asyncio.Queue\<close> objects. A queue is an object with identity: it is an address into
  \<open>queues\<close>, and \<open>next_queue\<close> is the next unused address.
\<close>

record world =
  organizations :: "organization list"
  projects :: "project list"
  tasks :: "task list"
  task_comments :: "comment list"
  writes :: "write_call list"
  connections :: "string \<Rightarrow> nat list option"
  queues :: "nat \<Rightarrow> event list"
  next_queue :: nat

definition put :: "event \<Rightarrow> nat \<Rightarrow> world \<Rightarrow> world" where
  "put ev q w = w\<lparr>queues := (queues w)(q := queues w q @ [ev])\<rparr>"

definition broadcast :: "string \<Rightarrow> string \<Rightarrow> (string \<times> string) list \<Rightarrow> world \<Rightarrow> world" where
  "broadcast organization_id event_type data w =
     (case connections w organization_id of
        None \<Rightarrow> w
      | Some qs \<Rightarrow> fold (put \<lparr>ev_type = event_type, ev_data = data\<rparr>) qs w)"

definition subscribe :: "string \<Rightarrow> world \<Rightarrow> nat \<times> world" where
  "subscribe organization_id w =
     (let qs = (case connections w organization_id of None \<Rightarrow> [] | Some qs \<Rightarrow> qs);
          queue = next_queue w
      in (queue,
          w\<lparr>connections := (connections w)(organization_id \<mapsto> qs @ [queue]),
            queues := (queues w)(queue := []),
            next_queue := Suc queue\<rparr>))"

text \<open>
  \<open>list.remove(queue)\<close> deletes the first occurrence and raises \<open>ValueError\<close> when there
  is none; the state is then as it was.
\<close>

definition unsubscribe :: "string \<Rightarrow> nat \<Rightarrow> world \<Rightarrow> error + world" where
  "unsubscribe organization_id queue w =
     (case connections w organization_id of
        None \<Rightarrow> Inr w
      | Some qs \<Rightarrow>
          if queue \<in> set qs
          then Inr (w\<lparr>connections := (connections w)(organization_id \<mapsto> remove1 queue qs)\<rparr>)
          else Inl ValueError)"

text \<open>The state of a freshly started process with an empty database.\<close>

definition initial_world :: world where
  "initial_world =
     \<lparr>organizations = [], projects = [], tasks = [], task_comments = [], writes = [],
      connections = (\<lambda>_. None), queues = (\<lambda>_. []), next_queue = 0\<rparr>"

section \<open>Types of the GraphQL schema\<close>

text \<open>
  The authenticated caller is \<open>info.context.get("user")\<close>: \<open>None\<close> when the request
  carried no valid token.
\<close>

record Organization =
  o_id :: string
  o_name :: string
  o_slug :: string
  o_contact_email :: string
  o_created_at :: string

text \<open>\<open>Organization(**org)\<close> on a document read without its \<open>user_id\<close>.\<close>

definition Organization_of :: "organization \<Rightarrow> Organization" where
  "Organization_of org =
     \<lparr>o_id = org_id org, o_name = org_name org, o_slug = org_slug org,
      o_contact_email = org_contact_email org, o_created_at = org_created_at org\<rparr>"

text \<open>
  The \<open>Project\<close> type is the stored document together with the two counts
  \<open>task_count\<close> and \<open>completed_tasks\<close>.
\<close>

type_synonym Project = "project \<times> nat \<times> nat"

record ProjectInput =
  pi_organization_id :: string
  pi_name :: string
  pi_description :: string
  pi_status :: string
  pi_due_date :: "string option"

record ProjectUpdateInput =
  pu_name :: "string option"
  pu_description :: "string option"
  pu_status :: "string option"
  pu_due_date :: "string option"

record TaskInput =
  ti_project_id :: string
  ti_title :: string
  ti_description :: string
  ti_status :: string
  ti_assignee_email :: string
  ti_due_date :: "string option"

record TaskUpdateInput =
  tu_title :: "string option"
  tu_description :: "string option"
  tu_status :: "string option"
  tu_assignee_email :: "string option"
  tu_due_date :: "string option"

record TaskCommentInput =
  ci_task_id :: string
  ci_content :: string

text \<open>
  \<open>completion_rate\<close> is the integer \<open>0\<close> when there is no task and a float otherwise.
  The query is written for any representation \<open>'f\<close> of the floats; \<open>float_rate\<close> below
  computes with the binary64 numbers.
\<close>

datatype 'f number = PyInt int | PyFloat 'f

record 'f ProjectStats =
  total_projects :: nat
  active_projects :: nat
  completed_projects :: nat
  on_hold_projects :: nat
  total_tasks :: nat
  completed_tasks :: nat
  completion_rate :: "'f number"

section \<open>Queries\<close>

definition Query_organization :: "user option \<Rightarrow> string \<Rightarrow> world \<Rightarrow> error + Organization option" where
  "Query_organization user ident w =
     (case user of
        None \<Rightarrow> Inl (Exception ''Not authenticated'')
      | Some u \<Rightarrow>
          (case find_one (\<lambda>org. org_id org = ident \<and> org_user_id org = usr_id u) (organizations w) of
             Some org \<Rightarrow> Inr (Some (Organization_of org))
           | None \<Rightarrow> Inr None))"

definition Query_projects :: "user option \<Rightarrow> string \<Rightarrow> world \<Rightarrow> error + Project list" where
  "Query_projects user organization_id w =
     (case user of
        None \<Rightarrow> Inl (Exception ''Not authenticated'')
      | Some u \<Rightarrow>
          (case find_one (\<lambda>org. org_id org = organization_id \<and> org_user_id org = usr_id u)
                  (organizations w) of
             None \<Rightarrow> Inl (Exception ''Organization not found'')
           | Some org \<Rightarrow>
               Inr (map (\<lambda>proj.
                      (proj,
                       count_documents (\<lambda>t. task_project_id t = proj_id proj) (tasks w),
                       count_documents
                         (\<lambda>t. task_project_id t = proj_id proj \<and> task_status t = ''DONE'') (tasks w)))
                    (find_to_list (\<lambda>p. proj_organization_id p = organization_id) 100 (projects w)))))"

definition Query_project :: "user option \<Rightarrow> string \<Rightarrow> world \<Rightarrow> error + Project option" where
  "Query_project user ident w =
     (case user of
        None \<Rightarrow> Inl (Exception ''Not authenticated'')
      | Some u \<Rightarrow>
          (case find_one (\<lambda>p. proj_id p = ident) (projects w) of
             Some proj \<Rightarrow>
               (case find_one
                       (\<lambda>org. org_id org = proj_organization_id proj \<and> org_user_id org = usr_id u)
                       (organizations w) of
                  None \<Rightarrow> Inl (Exception ''Access denied'')
                | Some org \<Rightarrow>
                    Inr (Some
                      (proj,
                       count_documents (\<lambda>t. task_project_id t = proj_id proj) (tasks w),
                       count_documents
                         (\<lambda>t. task_project_id t = proj_id proj \<and> task_status t = ''DONE'') (tasks w))))
           | None \<Rightarrow> Inr None))"

definition Query_tasks :: "user option \<Rightarrow> string \<Rightarrow> world \<Rightarrow> error + task list" where
  "Query_tasks user project_id w =
     (case user of
        None \<Rightarrow> Inl (Exception ''Not authenticated'')
      | Some u \<Rightarrow>
          (case find_one (\<lambda>p. proj_id p = project_id) (projects w) of
             None \<Rightarrow> Inl (Exception ''Project not found'')
           | Some proj \<Rightarrow>
               (case find_one
                       (\<lambda>org. org_id org = proj_organization_id proj \<and> org_user_id org = usr_id u)
                       (organizations w) of
                  None \<Rightarrow> Inl (Exception ''Access denied'')
                | Some org \<Rightarrow>
                    Inr (find_to_list (\<lambda>t. task_project_id t = project_id) 1000 (tasks w)))))"

definition Query_task :: "user option \<Rightarrow> string \<Rightarrow> world \<Rightarrow> error + task option" where
  "Query_task user ident w =
     (case user of
        None \<Rightarrow> Inl (Exception ''Not authenticated'')
      | Some u \<Rightarrow>
          (case find_one (\<lambda>t. task_id t = ident) (tasks w) of
             Some task \<Rightarrow>
               (case find_one (\<lambda>p. proj_id p = task_project_id task) (projects w) of
                  Some proj \<Rightarrow>
                    (case find_one
                            (\<lambda>org. org_id org = proj_organization_id proj \<and> org_user_id org = usr_id u)
                            (organizations w) of
                       Some org \<Rightarrow> Inr (Some task)
                     | None \<Rightarrow> Inr None)
                | None \<Rightarrow> Inr None)
           | None \<Rightarrow> Inr None))"

definition Query_task_comments :: "user option \<Rightarrow> string \<Rightarrow> world \<Rightarrow> error + comment list" where
  "Query_task_comments user task_id' w =
     (case user of
        None \<Rightarrow> Inl (Exception ''Not authenticated'')
      | Some u \<Rightarrow> Inr (find_to_list (\<lambda>c. comment_task_id c = task_id') 1000 (task_comments w)))"

text \<open>
  \<open>round_rate completed total\<close> stands for the double
  \<open>round(completed_tasks / total_tasks * 100, 1)\<close>; it is only used when \<open>total > 0\<close>.
\<close>

definition Query_project_stats ::
  "(nat \<Rightarrow> nat \<Rightarrow> 'f) \<Rightarrow> user option \<Rightarrow> string \<Rightarrow> world \<Rightarrow> error + 'f ProjectStats" where
  "Query_project_stats round_rate user organization_id w =
     (case user of
        None \<Rightarrow> Inl (Exception ''Not authenticated'')
      | Some u \<Rightarrow>
          (case find_one (\<lambda>org. org_id org = organization_id \<and> org_user_id org = usr_id u)
                  (organizations w) of
             None \<Rightarrow> Inl (Exception ''Organization not found'')
           | Some org \<Rightarrow>
               (let total_projects' =
                      count_documents (\<lambda>p. proj_organization_id p = organization_id) (projects w);
                    active_projects' =
                      count_documents
                        (\<lambda>p. proj_organization_id p = organization_id \<and> proj_status p = ''ACTIVE'')
                        (projects w);
                    completed_projects' =
                      count_documents
                        (\<lambda>p. proj_organization_id p = organization_id \<and> proj_status p = ''COMPLETED'')
                        (projects w);
                    on_hold_projects' =
                      count_documents
                        (\<lambda>p. proj_organization_id p = organization_id \<and> proj_status p = ''ON_HOLD'')
                        (projects w);
                    project_ids =
                      map proj_id
                        (find_to_list (\<lambda>p. proj_organization_id p = organization_id) 1000 (projects w));
                    total_tasks' =
                      (if project_ids \<noteq> []
                       then count_documents (\<lambda>t. task_project_id t \<in> set project_ids) (tasks w)
                       else 0);
                    completed_tasks' =
                      (if project_ids \<noteq> []
                       then count_documents
                              (\<lambda>t. task_project_id t \<in> set project_ids \<and> task_status t = ''DONE'')
                              (tasks w)
                       else 0);
                    completion_rate' =
                      (if total_tasks' > 0 then PyFloat (round_rate completed_tasks' total_tasks')
                       else PyInt 0)
                in Inr \<lparr>total_projects = total_projects', active_projects = active_projects',
                         completed_projects = completed_projects',
                         on_hold_projects = on_hold_projects',
                         total_tasks = total_tasks', completed_tasks = completed_tasks',
                         completion_rate = completion_rate'\<rparr>)))"

section \<open>Mutations\<close>

text \<open>
  A mutation returns its outcome together with the state it leaves, also when it raises.
  \<open>generate_id()\<close> and \<open>datetime.now(timezone.utc).isoformat()\<close> are inputs of the
  model: the arguments \<open>new_id\<close> and \<open>now\<close>.
\<close>

definition Mutation_create_project ::
  "user option \<Rightarrow> ProjectInput \<Rightarrow> string \<Rightarrow> string \<Rightarrow> world \<Rightarrow> (error + Project) \<times> world" where
  "Mutation_create_project user input new_id now w =
     (case user of
        None \<Rightarrow> (Inl (Exception ''Not authenticated''), w)
      | Some u \<Rightarrow>
          (case find_one
                  (\<lambda>org. org_id org = pi_organization_id input \<and> org_user_id org = usr_id u)
                  (organizations w) of
             None \<Rightarrow> (Inl (Exception ''Organization not found''), w)
           | Some org \<Rightarrow>
               (let proj_doc =
                      \<lparr>proj_id = new_id, proj_organization_id = pi_organization_id input,
                       proj_name = pi_name input, proj_description = pi_description input,
                       proj_status = pi_status input, proj_due_date = pi_due_date input,
                       proj_created_at = now\<rparr>;
                    w1 = w\<lparr>projects := insert_one proj_doc (projects w),
                           writes := writes w @ [Insert_one ''projects'']\<rparr>;
                    w2 = broadcast (pi_organization_id input) ''PROJECT_CREATED'' [(''id'', new_id)] w1
                in (Inr (proj_doc, 0, 0), w2))))"

text \<open>
  \<open>update_data\<close> is the dictionary of the fields the caller supplied, in the order the
  source fills it; \<open>$set\<close> stores each of them.
\<close>

definition project_update_data :: "ProjectUpdateInput \<Rightarrow> (string \<times> string) list" where
  "project_update_data input =
     (case pu_name input of None \<Rightarrow> [] | Some v \<Rightarrow> [(''name'', v)]) @
     (case pu_description input of None \<Rightarrow> [] | Some v \<Rightarrow> [(''description'', v)]) @
     (case pu_status input of None \<Rightarrow> [] | Some v \<Rightarrow> [(''status'', v)]) @
     (case pu_due_date input of None \<Rightarrow> [] | Some v \<Rightarrow> [(''due_date'', v)])"

fun set_project_field :: "string \<times> string \<Rightarrow> project \<Rightarrow> project" where
  "set_project_field (k, v) p =
     (if k = ''name'' then p\<lparr>proj_name := v\<rparr>
      else if k = ''description'' then p\<lparr>proj_description := v\<rparr>
      else if k = ''status'' then p\<lparr>proj_status := v\<rparr>
      else if k = ''due_date'' then p\<lparr>proj_due_date := Some v\<rparr>
      else p)"

definition Mutation_update_project ::
  "user option \<Rightarrow> string \<Rightarrow> ProjectUpdateInput \<Rightarrow> world \<Rightarrow> (error + Project) \<times> world" where
  "Mutation_update_project user ident input w =
     (case user of
        None \<Rightarrow> (Inl (Exception ''Not authenticated''), w)
      | Some u \<Rightarrow>
          (case find_one (\<lambda>p. proj_id p = ident) (projects w) of
             None \<Rightarrow> (Inl (Exception ''Project not found''), w)
           | Some proj \<Rightarrow>
               (case find_one
                       (\<lambda>org. org_id org = proj_organization_id proj \<and> org_user_id org = usr_id u)
                       (organizations w) of
                  None \<Rightarrow> (Inl (Exception ''Access denied''), w)
                | Some org \<Rightarrow>
                    (let update_data = project_update_data input;
                         w1 = (if update_data \<noteq> []
                               then w\<lparr>projects :=
                                        update_one (\<lambda>p. proj_id p = ident)
                                          (fold set_project_field update_data) (projects w),
                                      writes := writes w @ [Update_one ''projects'']\<rparr>
                               else w);
                         updated = find_one (\<lambda>p. proj_id p = ident) (projects w1);
                         task_count = count_documents (\<lambda>t. task_project_id t = ident) (tasks w1);
                         completed_tasks' =
                           count_documents
                             (\<lambda>t. task_project_id t = ident \<and> task_status t = ''DONE'') (tasks w1);
                         w2 = broadcast (proj_organization_id proj) ''PROJECT_UPDATED''
                                [(''id'', ident)] w1
                     in (case updated of
                           None \<Rightarrow> (Inl TypeError, w2)
                         | Some p \<Rightarrow> (Inr (p, task_count, completed_tasks'), w2))))))"

definition Mutation_delete_project :: "user option \<Rightarrow> string \<Rightarrow> world \<Rightarrow> (error + bool) \<times> world" where
  "Mutation_delete_project user ident w =
     (case user of
        None \<Rightarrow> (Inl (Exception ''Not authenticated''), w)
      | Some u \<Rightarrow>
          (case find_one (\<lambda>p. proj_id p = ident) (projects w) of
             None \<Rightarrow> (Inl (Exception ''Project not found''), w)
           | Some proj \<Rightarrow>
               (case find_one
                       (\<lambda>org. org_id org = proj_organization_id proj \<and> org_user_id org = usr_id u)
                       (organizations w) of
                  None \<Rightarrow> (Inl (Exception ''Access denied''), w)
                | Some org \<Rightarrow>
                    (let task_ids =
                           map task_id (find_to_list (\<lambda>t. task_project_id t = ident) 1000 (tasks w));
                         w1 = w\<lparr>task_comments :=
                                  delete_many (\<lambda>c. comment_task_id c \<in> set task_ids) (task_comments w),
                                writes := writes w @ [Delete_many ''task_comments'']\<rparr>;
                         w2 = w1\<lparr>tasks := delete_many (\<lambda>t. task_project_id t = ident) (tasks w1),
                                 writes := writes w1 @ [Delete_many ''tasks'']\<rparr>;
                         w3 = w2\<lparr>projects := delete_one (\<lambda>p. proj_id p = ident) (projects w2),
                                 writes := writes w2 @ [Delete_one ''projects'']\<rparr>;
                         w4 = broadcast (proj_organization_id proj) ''PROJECT_DELETED''
                                [(''id'', ident)] w3
                     in (Inr True, w4)))))"

definition Mutation_create_task ::
  "user option \<Rightarrow> TaskInput \<Rightarrow> string \<Rightarrow> string \<Rightarrow> world \<Rightarrow> (error + task) \<times> world" where
  "Mutation_create_task user input new_id now w =
     (case user of
        None \<Rightarrow> (Inl (Exception ''Not authenticated''), w)
      | Some u \<Rightarrow>
          (case find_one (\<lambda>p. proj_id p = ti_project_id input) (projects w) of
             None \<Rightarrow> (Inl (Exception ''Project not found''), w)
           | Some proj \<Rightarrow>
               (case find_one
                       (\<lambda>org. org_id org = proj_organization_id proj \<and> org_user_id org = usr_id u)
                       (organizations w) of
                  None \<Rightarrow> (Inl (Exception ''Access denied''), w)
                | Some org \<Rightarrow>
                    (let task_doc =
                           \<lparr>task_id = new_id, task_project_id = ti_project_id input,
                            task_title = ti_title input, task_description = ti_description input,
                            task_status = ti_status input,
                            task_assignee_email = ti_assignee_email input,
                            task_due_date = ti_due_date input, task_created_at = now\<rparr>;
                         w1 = w\<lparr>tasks := insert_one task_doc (tasks w),
                                writes := writes w @ [Insert_one ''tasks'']\<rparr>;
                         w2 = broadcast (proj_organization_id proj) ''TASK_CREATED''
                                [(''id'', new_id), (''project_id'', ti_project_id input)] w1
                     in (Inr task_doc, w2)))))"

definition task_update_data :: "TaskUpdateInput \<Rightarrow> (string \<times> string) list" where
  "task_update_data input =
     (case tu_title input of None \<Rightarrow> [] | Some v \<Rightarrow> [(''title'', v)]) @
     (case tu_description input of None \<Rightarrow> [] | Some v \<Rightarrow> [(''description'', v)]) @
     (case tu_status input of None \<Rightarrow> [] | Some v \<Rightarrow> [(''status'', v)]) @
     (case tu_assignee_email input of None \<Rightarrow> [] | Some v \<Rightarrow> [(''assignee_email'', v)]) @
     (case tu_due_date input of None \<Rightarrow> [] | Some v \<Rightarrow> [(''due_date'', v)])"

fun set_task_field :: "string \<times> string \<Rightarrow> task \<Rightarrow> task" where
  "set_task_field (k, v) t =
     (if k = ''title'' then t\<lparr>task_title := v\<rparr>
      else if k = ''description'' then t\<lparr>task_description := v\<rparr>
      else if k = ''status'' then t\<lparr>task_status := v\<rparr>
      else if k = ''assignee_email'' then t\<lparr>task_assignee_email := v\<rparr>
      else if k = ''due_date'' then t\<lparr>task_due_date := Some v\<rparr>
      else t)"

definition Mutation_update_task ::
  "user option \<Rightarrow> string \<Rightarrow> TaskUpdateInput \<Rightarrow> world \<Rightarrow> (error + task) \<times> world" where
  "Mutation_update_task user ident input w =
     (case user of
        None \<Rightarrow> (Inl (Exception ''Not authenticated''), w)
      | Some u \<Rightarrow>
          (case find_one (\<lambda>t. task_id t = ident) (tasks w) of
             None \<Rightarrow> (Inl (Exception ''Task not found''), w)
           | Some task \<Rightarrow>
               (case find_one (\<lambda>p. proj_id p = task_project_id task) (projects w) of
                  None \<Rightarrow> (Inl (Exception ''Project not found''), w)
                | Some proj \<Rightarrow>
                    (case find_one
                            (\<lambda>org. org_id org = proj_organization_id proj \<and> org_user_id org = usr_id u)
                            (organizations w) of
                       None \<Rightarrow> (Inl (Exception ''Access denied''), w)
                     | Some org \<Rightarrow>
                         (let update_data = task_update_data input;
                              w1 = (if update_data \<noteq> []
                                    then w\<lparr>tasks :=
                                             update_one (\<lambda>t. task_id t = ident)
                                               (fold set_task_field update_data) (tasks w),
                                           writes := writes w @ [Update_one ''tasks'']\<rparr>
                                    else w);
                              updated = find_one (\<lambda>t. task_id t = ident) (tasks w1);
                              w2 = broadcast (proj_organization_id proj) ''TASK_UPDATED''
                                     [(''id'', ident), (''project_id'', task_project_id task)] w1
                          in (case updated of
                                None \<Rightarrow> (Inl TypeError, w2)
                              | Some t \<Rightarrow> (Inr t, w2)))))))"

definition Mutation_delete_task :: "user option \<Rightarrow> string \<Rightarrow> world \<Rightarrow> (error + bool) \<times> world" where
  "Mutation_delete_task user ident w =
     (case user of
        None \<Rightarrow> (Inl (Exception ''Not authenticated''), w)
      | Some u \<Rightarrow>
          (case find_one (\<lambda>t. task_id t = ident) (tasks w) of
             None \<Rightarrow> (Inl (Exception ''Task not found''), w)
           | Some task \<Rightarrow>
               (case find_one (\<lambda>p. proj_id p = task_project_id task) (projects w) of
                  None \<Rightarrow> (Inl (Exception ''Project not found''), w)
                | Some proj \<Rightarrow>
                    (case find_one
                            (\<lambda>org. org_id org = proj_organization_id proj \<and> org_user_id org = usr_id u)
                            (organizations w) of
                       None \<Rightarrow> (Inl (Exception ''Access denied''), w)
                     | Some org \<Rightarrow>
                         (let w1 = w\<lparr>task_comments :=
                                       delete_many (\<lambda>c. comment_task_id c = ident) (task_comments w),
                                     writes := writes w @ [Delete_many ''task_comments'']\<rparr>;
                              w2 = w1\<lparr>tasks := delete_one (\<lambda>t. task_id t = ident) (tasks w1),
                                      writes := writes w1 @ [Delete_one ''tasks'']\<rparr>;
                              w3 = broadcast (proj_organization_id proj) ''TASK_DELETED''
                                     [(''id'', ident), (''project_id'', task_project_id task)] w2
                          in (Inr True, w3))))))"

definition Mutation_add_comment ::
  "user option \<Rightarrow> TaskCommentInput \<Rightarrow> string \<Rightarrow> string \<Rightarrow> world \<Rightarrow> (error + comment) \<times> world" where
  "Mutation_add_comment user input new_id now w =
     (case user of
        None \<Rightarrow> (Inl (Exception ''Not authenticated''), w)
      | Some u \<Rightarrow>
          (case find_one (\<lambda>t. task_id t = ci_task_id input) (tasks w) of
             None \<Rightarrow> (Inl (Exception ''Task not found''), w)
           | Some task \<Rightarrow>
               (case find_one (\<lambda>p. proj_id p = task_project_id task) (projects w) of
                  None \<Rightarrow> (Inl (Exception ''Project not found''), w)
                | Some proj \<Rightarrow>
                    (case find_one
                            (\<lambda>org. org_id org = proj_organization_id proj \<and> org_user_id org = usr_id u)
                            (organizations w) of
                       None \<Rightarrow> (Inl (Exception ''Access denied''), w)
                     | Some org \<Rightarrow>
                         (let comment_doc =
                                \<lparr>comment_id = new_id, comment_task_id = ci_task_id input,
                                 comment_content = ci_content input,
                                 comment_author_email = usr_email u, comment_created_at = now\<rparr>;
                              w1 = w\<lparr>task_comments := insert_one comment_doc (task_comments w),
                                     writes := writes w @ [Insert_one ''task_comments'']\<rparr>;
                              w2 = broadcast (proj_organization_id proj) ''COMMENT_ADDED''
                                     [(''id'', new_id), (''task_id'', ci_task_id input)] w1
                          in (Inr comment_doc, w2))))))"

definition Mutation_delete_comment :: "user option \<Rightarrow> string \<Rightarrow> world \<Rightarrow> (error + bool) \<times> world" where
  "Mutation_delete_comment user ident w =
     (case user of
        None \<Rightarrow> (Inl (Exception ''Not authenticated''), w)
      | Some u \<Rightarrow>
          (case find_one (\<lambda>c. comment_id c = ident) (task_comments w) of
             None \<Rightarrow> (Inl (Exception ''Comment not found''), w)
           | Some comment \<Rightarrow>
               if comment_author_email comment \<noteq> usr_email u
               then (Inl (Exception ''Access denied''), w)
               else (Inr True,
                     w\<lparr>task_comments := delete_one (\<lambda>c. comment_id c = ident) (task_comments w),
                       writes := writes w @ [Delete_one ''task_comments'']\<rparr>)))"

section \<open>The subscription \<open>organization_events\<close>\<close>

record SubscriptionEvent =
  se_event_type :: string
  se_entity_type :: string
  se_entity_id :: string
  se_organization_id :: string

text \<open>\<open>s.split("_")[0]\<close>: the text before the first underscore.\<close>

definition split_first :: "string \<Rightarrow> string" where
  "split_first s = takeWhile (\<lambda>c. c \<noteq> CHR ''_'') s"

text \<open>\<open>data.get("id", "")\<close>.\<close>

definition get_id :: "(string \<times> string) list \<Rightarrow> string" where
  "get_id data = (case map_of data ''id'' of None \<Rightarrow> [] | Some v \<Rightarrow> v)"

text \<open>
  The asynchronous generator is suspended either in \<open>await queue.get()\<close> or at its
  \<open>yield\<close>, or it has terminated. It keeps its two local variables.
\<close>

datatype position = At_get | At_yield | Terminated

record subscription =
  sub_organization_id :: string
  sub_queue :: nat
  sub_position :: position

text \<open>The first resumption: subscribe, enter the \<open>try\<close> block and wait for an event.\<close>

definition organization_events :: "string \<Rightarrow> world \<Rightarrow> subscription \<times> world" where
  "organization_events organization_id' w =
     (case subscribe organization_id' w of
        (queue, w') \<Rightarrow>
          (\<lparr>sub_organization_id = organization_id', sub_queue = queue, sub_position = At_get\<rparr>, w'))"

text \<open>
  \<open>queue.get()\<close> returns once the queue holds an event; the generator yields the
  \<open>SubscriptionEvent\<close> made from it. With an empty queue it stays suspended.
\<close>

definition deliver :: "subscription \<Rightarrow> world \<Rightarrow> SubscriptionEvent option \<times> subscription \<times> world" where
  "deliver s w =
     (if sub_position s = At_get
      then (case queues w (sub_queue s) of
              [] \<Rightarrow> (None, s, w)
            | ev # rest \<Rightarrow>
                (Some \<lparr>se_event_type = ev_type ev, se_entity_type = split_first (ev_type ev),
                       se_entity_id = get_id (ev_data ev),
                       se_organization_id = sub_organization_id s\<rparr>,
                 s\<lparr>sub_position := At_yield\<rparr>,
                 w\<lparr>queues := (queues w)(sub_queue s := rest)\<rparr>))
      else (None, s, w))"

text \<open>The consumer asks for the next event: the loop goes round to \<open>queue.get()\<close>.\<close>

definition resume :: "subscription \<Rightarrow> subscription" where
  "resume s = (if sub_position s = At_yield then s\<lparr>sub_position := At_get\<rparr> else s)"

text \<open>
  An exception raised inside the \<open>try\<close> block, at the point where the generator is
  suspended. The only handler is \<open>except asyncio.CancelledError\<close>: it unsubscribes and
  the generator returns. Every other exception leaves the generator at once. The first
  component is the exception that leaves the generator, if any.
\<close>

definition raise_in_loop ::
  "error \<Rightarrow> subscription \<Rightarrow> world \<Rightarrow> error option \<times> subscription \<times> world" where
  "raise_in_loop e s w =
     (if sub_position s = Terminated then (None, s, w)
      else if e = CancelledError
      then (case unsubscribe (sub_organization_id s) (sub_queue s) w of
              Inl e' \<Rightarrow> (Some e', s\<lparr>sub_position := Terminated\<rparr>, w)
            | Inr w' \<Rightarrow> (None, s\<lparr>sub_position := Terminated\<rparr>, w'))
      else (Some e, s\<lparr>sub_position := Terminated\<rparr>, w))"

section \<open>The mutation fields of the schema\<close>

text \<open>
  The mutations on organization-scoped entities, as requests to the schema, and whether
  each one failed.
\<close>

datatype mutation =
    Create_project ProjectInput string string
  | Update_project string ProjectUpdateInput
  | Delete_project string
  | Create_task TaskInput string string
  | Update_task string TaskUpdateInput
  | Delete_task string
  | Add_comment TaskCommentInput string string
  | Delete_comment string

definition outcome :: "(error + 'a) \<times> world \<Rightarrow> error option \<times> world" where
  "outcome r = ((case fst r of Inl e \<Rightarrow> Some e | Inr v \<Rightarrow> None), snd r)"

fun execute :: "user option \<Rightarrow> mutation \<Rightarrow> world \<Rightarrow> error option \<times> world" where
  "execute user (Create_project input new_id now) w =
     outcome (Mutation_create_project user input new_id now w)"
| "execute user (Update_project ident input) w = outcome (Mutation_update_project user ident input w)"
| "execute user (Delete_project ident) w = outcome (Mutation_delete_project user ident w)"
| "execute user (Create_task input new_id now) w =
     outcome (Mutation_create_task user input new_id now w)"
| "execute user (Update_task ident input) w = outcome (Mutation_update_task user ident input w)"
| "execute user (Delete_task ident) w = outcome (Mutation_delete_task user ident w)"
| "execute user (Add_comment input new_id now) w =
     outcome (Mutation_add_comment user input new_id now w)"
| "execute user (Delete_comment ident) w = outcome (Mutation_delete_comment user ident w)"

text \<open>The events that queue \<open>q\<close> holds in \<open>w'\<close> beyond those it held in \<open>w\<close>.\<close>

definition received :: "world \<Rightarrow> world \<Rightarrow> nat \<Rightarrow> event list" where
  "received w w' q = drop (length (queues w q)) (queues w' q)"

section \<open>The entity a mutation refers to\<close>

text \<open>
  The id that a mutation resolves first: a task id (\<open>update_task\<close>, \<open>delete_task\<close>,
  \<open>add_comment\<close>), a project id (\<open>update_project\<close>, \<open>delete_project\<close>, \<open>create_task\<close>)
  or an organization id (\<open>create_project\<close>).
\<close>

fun task_ref :: "mutation \<Rightarrow> string option" where
  "task_ref (Update_task ident input) = Some ident"
| "task_ref (Delete_task ident) = Some ident"
| "task_ref (Add_comment input new_id now) = Some (ci_task_id input)"
| "task_ref m = None"

fun project_ref :: "mutation \<Rightarrow> string option" where
  "project_ref (Update_project ident input) = Some ident"
| "project_ref (Delete_project ident) = Some ident"
| "project_ref (Create_task input new_id now) = Some (ti_project_id input)"
| "project_ref m = None"

fun organization_ref :: "mutation \<Rightarrow> string option" where
  "organization_ref (Create_project input new_id now) = Some (pi_organization_id input)"
| "organization_ref m = None"

text \<open>
  The entity a mutation request changes: the fresh id of a creation, the given id otherwise.
\<close>

fun changed_entity :: "mutation \<Rightarrow> string" where
  "changed_entity (Create_project input new_id now) = new_id"
| "changed_entity (Update_project ident input) = ident"
| "changed_entity (Delete_project ident) = ident"
| "changed_entity (Create_task input new_id now) = new_id"
| "changed_entity (Update_task ident input) = ident"
| "changed_entity (Delete_task ident) = ident"
| "changed_entity (Add_comment input new_id now) = new_id"
| "changed_entity (Delete_comment ident) = ident"

text \<open>The text of an event type after its first underscore.\<close>

definition action_of :: "string \<Rightarrow> string" where
  "action_of s = drop (Suc (length (split_first s))) s"

section \<open>Well-formed registry\<close>

text \<open>
  Every registered queue was created by \<open>subscribe\<close>, and no list of the registry holds a
  queue twice.
\<close>

definition registry_ok :: "world \<Rightarrow> bool" where
  "registry_ok w \<longleftrightarrow>
     (\<forall>org qs. connections w org = Some qs \<longrightarrow> distinct qs \<and> (\<forall>q \<in> set qs. q < next_queue w))"

section \<open>A small database\<close>

text \<open>
  Alice owns the organization \<open>o1\<close> with one project, one task and one comment; Bob is
  another registered user who owns nothing. One subscriber, queue \<open>0\<close>, listens on
  \<open>o1\<close>.
\<close>

definition alice :: user where
  "alice = \<lparr>usr_id = ''u1'', usr_email = ''a@x.com'', usr_name = ''Alice'',
            usr_created_at = ''2024-01-01T00:00:00+00:00''\<rparr>"

definition bob :: user where
  "bob = \<lparr>usr_id = ''u2'', usr_email = ''b@x.com'', usr_name = ''Bob'',
          usr_created_at = ''2024-01-02T00:00:00+00:00''\<rparr>"

definition acme :: organization where
  "acme = \<lparr>org_id = ''o1'', org_user_id = ''u1'', org_name = ''acme'', org_slug = ''acme-co'',
           org_contact_email = ''a@x.com'', org_created_at = ''2024-01-03T00:00:00+00:00''\<rparr>"

definition project1 :: project where
  "project1 = \<lparr>proj_id = ''p1'', proj_organization_id = ''o1'', proj_name = ''Launch'',
               proj_description = ''First'', proj_status = ''ACTIVE'', proj_due_date = None,
               proj_created_at = ''2024-01-04T00:00:00+00:00''\<rparr>"

definition task1 :: task where
  "task1 = \<lparr>task_id = ''t1'', task_project_id = ''p1'', task_title = ''Write'',
            task_description = ''Draft'', task_status = ''TODO'',
            task_assignee_email = ''a@x.com'', task_due_date = Some ''2024-02-01'',
            task_created_at = ''2024-01-05T00:00:00+00:00''\<rparr>"

definition comment1 :: comment where
  "comment1 = \<lparr>comment_id = ''c1'', comment_task_id = ''t1'', comment_content = ''Secret'',
               comment_author_email = ''a@x.com'',
               comment_created_at = ''2024-01-06T00:00:00+00:00''\<rparr>"

definition example_world :: world where
  "example_world =
     \<lparr>organizations = [acme], projects = [project1], tasks = [task1],
      task_comments = [comment1], writes = [],
      connections = (\<lambda>_. None)(''o1'' \<mapsto> [0]), queues = (\<lambda>_. []), next_queue = 1\<rparr>"

section \<open>Inputs used in the examples\<close>

definition new_project :: ProjectInput where
  "new_project =
     \<lparr>pi_organization_id = ''o1'', pi_name = ''Second'', pi_description = [],
      pi_status = ''ACTIVE'', pi_due_date = None\<rparr>"

definition new_task :: TaskInput where
  "new_task =
     \<lparr>ti_project_id = ''p1'', ti_title = ''Review'', ti_description = [], ti_status = ''TODO'',
      ti_assignee_email = [], ti_due_date = None\<rparr>"

definition new_comment :: TaskCommentInput where
  "new_comment = \<lparr>ci_task_id = ''t1'', ci_content = ''Hello''\<rparr>"

definition status_only :: "string \<Rightarrow> TaskUpdateInput" where
  "status_only s =
     \<lparr>tu_title = None, tu_description = None, tu_status = Some s, tu_assignee_email = None,
      tu_due_date = None\<rparr>"

definition no_project_changes :: ProjectUpdateInput where
  "no_project_changes =
     \<lparr>pu_name = None, pu_description = None, pu_status = None, pu_due_date = None\<rparr>"

definition no_task_changes :: TaskUpdateInput where
  "no_task_changes =
     \<lparr>tu_title = None, tu_description = None, tu_status = None, tu_assignee_email = None,
      tu_due_date = None\<rparr>"

section \<open>A project with 1001 tasks\<close>

text \<open>
  The project \<open>p1\<close> of Alice's organization with the tasks number 0 to 1000, and one
  comment on the task number 1000.
\<close>

definition numbered_id :: "nat \<Rightarrow> string" where
  "numbered_id i = CHR ''t'' # replicate i (CHR ''x'')"

definition numbered_task :: "nat \<Rightarrow> task" where
  "numbered_task i =
     \<lparr>task_id = numbered_id i, task_project_id = ''p1'', task_title = ''Item'',
      task_description = [], task_status = ''TODO'', task_assignee_email = [],
      task_due_date = None, task_created_at = ''2024-01-05T00:00:00+00:00''\<rparr>"

definition last_comment :: comment where
  "last_comment =
     \<lparr>comment_id = ''c1'', comment_task_id = numbered_id 1000, comment_content = ''Note'',
      comment_author_email = ''a@x.com'', comment_created_at = ''2024-01-06T00:00:00+00:00''\<rparr>"

definition large_world :: world where
  "large_world =
     \<lparr>organizations = [acme], projects = [project1], tasks = map numbered_task [0..<1001],
      task_comments = [last_comment], writes = [],
      connections = (\<lambda>_. None), queues = (\<lambda>_. []), next_queue = 0\<rparr>"

section \<open>Float arithmetic of the completion rate\<close>

text \<open>
  Python's floats are IEEE 754 binary64 numbers. Each of them is a rational number, and an
  operation returns the float nearest to the exact result. The model works on those
  rationals.
\<close>

text \<open>The nearest integer, a tie going to the even one.\<close>

definition round_half_even :: "rat \<Rightarrow> int" where
  "round_half_even x =
     (let f = \<lfloor>x\<rfloor>; d = x - of_int f
      in if d < 1 / 2 then f else if 1 / 2 < d then f + 1 else if even f then f else f + 1)"

text \<open>
  The exponent \<open>e\<close> of a positive number, \<open>2 ^ e \<le> x < 2 ^ (e + 1)\<close>: the difference of the bit
  lengths of numerator and denominator, or one less.
\<close>

definition exponent :: "rat \<Rightarrow> int" where
  "exponent x =
     (case quotient_of x of
        (p, q) \<Rightarrow>
          (let e = bitlen p - bitlen q
           in if 2 powi e \<le> x then e else e - 1))"

text \<open>
  The binary64 number nearest to \<open>x\<close>, a tie going to the even significand: 53 significant
  bits, and the spacing \<open>2 ^ (-1074)\<close> below the smallest normal exponent \<open>-1022\<close>. Overflow
  is left out: the numbers rounded for a completion rate lie between 0 and 101.
\<close>

definition binary64 :: "rat \<Rightarrow> rat" where
  "binary64 x =
     (if x = 0 then 0
      else (let q = 2 powi (max (exponent \<bar>x\<bar>) (- 1022) - 52)
            in sgn x * of_int (round_half_even (\<bar>x\<bar> / q)) * q))"

text \<open>
  \<open>round(x, 1)\<close> on a float: the number with one decimal digit nearest to the value of the
  float, a tie going to the even digit, and then the float nearest to that decimal number.
\<close>

definition py_round1 :: "rat \<Rightarrow> rat" where
  "py_round1 x = binary64 (of_int (round_half_even (x * 10)) / 10)"

text \<open>
  \<open>round(completed_tasks / total_tasks * 100, 1)\<close>: the true division of two integers gives
  the float nearest to the quotient, the product with \<open>100\<close> is rounded to a float again.
  This is the \<open>round_rate\<close> that \<open>project_stats\<close> runs with.
\<close>

definition float_rate :: "nat \<Rightarrow> nat \<Rightarrow> rat" where
  "float_rate completed_tasks' total_tasks' =
     py_round1 (binary64 (binary64 (of_nat completed_tasks' / of_nat total_tasks') * 100))"

section \<open>A project with 80 tasks\<close>

text \<open>The project \<open>p1\<close> of Alice's organization with 80 tasks, the first 23 of them done.\<close>

definition progress_task :: "nat \<Rightarrow> task" where
  "progress_task i =
     \<lparr>task_id = numbered_id i, task_project_id = ''p1'', task_title = ''Item'',
      task_description = [], task_status = (if i < 23 then ''DONE'' else ''TODO''),
      task_assignee_email = [], task_due_date = None,
      task_created_at = ''2024-01-05T00:00:00+00:00''\<rparr>"

definition progress_world :: world where
  "progress_world =
     \<lparr>organizations = [acme], projects = [project1], tasks = map progress_task [0..<80],
      task_comments = [], writes = [],
      connections = (\<lambda>_. None), queues = (\<lambda>_. []), next_queue = 0\<rparr>"

section \<open>Facts about the store\<close>

lemma find_append:
  "List.find P (xs @ ys) = (case List.find P xs of None \<Rightarrow> List.find P ys | Some x \<Rightarrow> Some x)"
  by (induction xs) simp_all

lemma find_map_none:
  "(\<And>i. i \<in> set ns \<Longrightarrow> \<not> P (f i)) \<Longrightarrow> List.find P (map f ns) = None"
  by (induction ns) simp_all

lemma find_one_holds: "find_one P xs = Some x \<Longrightarrow> P x"
  by (induction xs) (auto simp add: find_one_def split: if_splits)

lemma find_one_in_set: "find_one P xs = Some x \<Longrightarrow> x \<in> set xs"
  by (induction xs) (auto simp add: find_one_def split: if_splits)

lemma find_one_update_one:
  "find_one P xs = Some x \<Longrightarrow> P (f x) \<Longrightarrow> find_one P (update_one P f xs) = Some (f x)"
  by (induction xs) (auto simp add: find_one_def split: if_splits)

lemma update_one_same:
  "find_one P xs = Some x \<Longrightarrow> update_one P (\<lambda>_. x) xs = xs"
  by (induction xs) (auto simp add: find_one_def split: if_splits)

lemma update_one_value:
  "find_one P xs = Some x \<Longrightarrow> update_one P f xs = update_one P (\<lambda>_. f x) xs"
  by (induction xs) (auto simp add: find_one_def split: if_splits)

section \<open>Facts about the hub\<close>

lemma fold_put_fields [simp]:
  "organizations (fold (put ev) qs w) = organizations w"
  "projects (fold (put ev) qs w) = projects w"
  "tasks (fold (put ev) qs w) = tasks w"
  "task_comments (fold (put ev) qs w) = task_comments w"
  "writes (fold (put ev) qs w) = writes w"
  "connections (fold (put ev) qs w) = connections w"
  "next_queue (fold (put ev) qs w) = next_queue w"
  by (induction qs arbitrary: w; simp add: put_def)+

lemma broadcast_fields [simp]:
  "organizations (broadcast org ty data w) = organizations w"
  "projects (broadcast org ty data w) = projects w"
  "tasks (broadcast org ty data w) = tasks w"
  "task_comments (broadcast org ty data w) = task_comments w"
  "writes (broadcast org ty data w) = writes w"
  "connections (broadcast org ty data w) = connections w"
  "next_queue (broadcast org ty data w) = next_queue w"
  by (simp_all add: broadcast_def split: option.split)

lemma queues_fold_put:
  "queues (fold (put ev) qs w) q = queues w q @ replicate (count_list qs q) ev"
  by (induction qs arbitrary: w) (simp_all add: put_def replicate_app_Cons_same)

lemma received_broadcast:
  "received w (broadcast org ty data w) q =
     (case connections w org of
        None \<Rightarrow> []
      | Some qs \<Rightarrow> replicate (count_list qs q) \<lparr>ev_type = ty, ev_data = data\<rparr>)"
  by (simp add: received_def broadcast_def queues_fold_put split: option.split)

lemma received_broadcast_after:
  "queues w1 = queues w \<Longrightarrow> connections w1 = connections w \<Longrightarrow>
   received w (broadcast org ty data w1) q =
     (case connections w org of
        None \<Rightarrow> []
      | Some qs \<Rightarrow> replicate (count_list qs q) \<lparr>ev_type = ty, ev_data = data\<rparr>)"
  by (simp add: received_def broadcast_def queues_fold_put split: option.split)

lemma in_received_broadcast:
  "ev \<in> set (received w (broadcast org ty data w1) q) \<Longrightarrow> queues w1 = queues w \<Longrightarrow>
   connections w1 = connections w \<Longrightarrow> ev = \<lparr>ev_type = ty, ev_data = data\<rparr>"
  by (auto simp add: received_broadcast_after split: option.splits)

lemma count_list_distinct: "distinct xs \<Longrightarrow> x \<in> set xs \<Longrightarrow> count_list xs x = 1"
  by (induction xs) auto

section \<open>What a successful mutation leaves\<close>

lemmas mutation_defs =
  Mutation_create_project_def Mutation_update_project_def Mutation_delete_project_def
  Mutation_create_task_def Mutation_update_task_def Mutation_delete_task_def
  Mutation_add_comment_def Mutation_delete_comment_def

lemma outcome_success: "outcome x = (None, w') \<longleftrightarrow> (\<exists>r. x = (Inr r, w'))"
  by (cases x; cases "fst x") (auto simp add: outcome_def)

lemma create_project_success:
  assumes "Mutation_create_project user input new_id now w = (Inr r, w')"
  shows "\<exists>u org.
     user = Some u \<and>
     find_one (\<lambda>org. org_id org = pi_organization_id input \<and> org_user_id org = usr_id u)
       (organizations w) = Some org \<and>
     w' = broadcast (pi_organization_id input) ''PROJECT_CREATED'' [(''id'', new_id)]
            (w\<lparr>projects := insert_one (fst r) (projects w),
               writes := writes w @ [Insert_one ''projects'']\<rparr>) \<and>
     proj_id (fst r) = new_id \<and> proj_organization_id (fst r) = pi_organization_id input"
  using assms
  by (auto simp add: Mutation_create_project_def Let_def split: option.splits)

lemma update_project_success:
  assumes "Mutation_update_project user ident input w = (Inr r, w')"
  shows "\<exists>u proj org.
     user = Some u \<and>
     find_one (\<lambda>p. proj_id p = ident) (projects w) = Some proj \<and>
     find_one (\<lambda>org. org_id org = proj_organization_id proj \<and> org_user_id org = usr_id u)
       (organizations w) = Some org \<and>
     w' = broadcast (proj_organization_id proj) ''PROJECT_UPDATED'' [(''id'', ident)]
            (if project_update_data input \<noteq> []
             then w\<lparr>projects := update_one (\<lambda>p. proj_id p = ident)
                                  (fold set_project_field (project_update_data input)) (projects w),
                    writes := writes w @ [Update_one ''projects'']\<rparr>
             else w)"
  using assms
  by (auto simp add: Mutation_update_project_def Let_def split: option.splits if_splits)

lemma delete_project_success:
  assumes "Mutation_delete_project user ident w = (Inr r, w')"
  shows "\<exists>u proj org.
     user = Some u \<and>
     find_one (\<lambda>p. proj_id p = ident) (projects w) = Some proj \<and>
     find_one (\<lambda>org. org_id org = proj_organization_id proj \<and> org_user_id org = usr_id u)
       (organizations w) = Some org \<and>
     w' = broadcast (proj_organization_id proj) ''PROJECT_DELETED'' [(''id'', ident)]
            (w\<lparr>task_comments :=
                 delete_many
                   (\<lambda>c. comment_task_id c \<in>
                      set (map task_id (find_to_list (\<lambda>t. task_project_id t = ident) 1000 (tasks w))))
                   (task_comments w),
               tasks := delete_many (\<lambda>t. task_project_id t = ident) (tasks w),
               projects := delete_one (\<lambda>p. proj_id p = ident) (projects w),
               writes := writes w @ [Delete_many ''task_comments'', Delete_many ''tasks'',
                                     Delete_one ''projects'']\<rparr>)"
  using assms
  by (auto simp add: Mutation_delete_project_def Let_def split: option.splits)

lemma create_task_success:
  assumes "Mutation_create_task user input new_id now w = (Inr r, w')"
  shows "\<exists>u proj org.
     user = Some u \<and>
     find_one (\<lambda>p. proj_id p = ti_project_id input) (projects w) = Some proj \<and>
     find_one (\<lambda>org. org_id org = proj_organization_id proj \<and> org_user_id org = usr_id u)
       (organizations w) = Some org \<and>
     w' = broadcast (proj_organization_id proj) ''TASK_CREATED''
            [(''id'', new_id), (''project_id'', ti_project_id input)]
            (w\<lparr>tasks := insert_one r (tasks w), writes := writes w @ [Insert_one ''tasks'']\<rparr>) \<and>
     task_id r = new_id \<and> task_project_id r = ti_project_id input"
  using assms
  by (auto simp add: Mutation_create_task_def Let_def split: option.splits)

lemma update_task_success:
  assumes "Mutation_update_task user ident input w = (Inr r, w')"
  shows "\<exists>u task proj org.
     user = Some u \<and>
     find_one (\<lambda>t. task_id t = ident) (tasks w) = Some task \<and>
     find_one (\<lambda>p. proj_id p = task_project_id task) (projects w) = Some proj \<and>
     find_one (\<lambda>org. org_id org = proj_organization_id proj \<and> org_user_id org = usr_id u)
       (organizations w) = Some org \<and>
     w' = broadcast (proj_organization_id proj) ''TASK_UPDATED''
            [(''id'', ident), (''project_id'', task_project_id task)]
            (if task_update_data input \<noteq> []
             then w\<lparr>tasks := update_one (\<lambda>t. task_id t = ident)
                               (fold set_task_field (task_update_data input)) (tasks w),
                    writes := writes w @ [Update_one ''tasks'']\<rparr>
             else w)"
  using assms
  by (auto simp add: Mutation_update_task_def Let_def split: option.splits if_splits)

lemma delete_task_success:
  assumes "Mutation_delete_task user ident w = (Inr r, w')"
  shows "\<exists>u task proj org.
     user = Some u \<and>
     find_one (\<lambda>t. task_id t = ident) (tasks w) = Some task \<and>
     find_one (\<lambda>p. proj_id p = task_project_id task) (projects w) = Some proj \<and>
     find_one (\<lambda>org. org_id org = proj_organization_id proj \<and> org_user_id org = usr_id u)
       (organizations w) = Some org \<and>
     w' = broadcast (proj_organization_id proj) ''TASK_DELETED''
            [(''id'', ident), (''project_id'', task_project_id task)]
            (w\<lparr>task_comments := delete_many (\<lambda>c. comment_task_id c = ident) (task_comments w),
               tasks := delete_one (\<lambda>t. task_id t = ident) (tasks w),
               writes := writes w @ [Delete_many ''task_comments'', Delete_one ''tasks'']\<rparr>)"
  using assms
  by (auto simp add: Mutation_delete_task_def Let_def split: option.splits)

lemma add_comment_success:
  assumes "Mutation_add_comment user input new_id now w = (Inr r, w')"
  shows "\<exists>u task proj org.
     user = Some u \<and>
     find_one (\<lambda>t. task_id t = ci_task_id input) (tasks w) = Some task \<and>
     find_one (\<lambda>p. proj_id p = task_project_id task) (projects w) = Some proj \<and>
     find_one (\<lambda>org. org_id org = proj_organization_id proj \<and> org_user_id org = usr_id u)
       (organizations w) = Some org \<and>
     w' = broadcast (proj_organization_id proj) ''COMMENT_ADDED''
            [(''id'', new_id), (''task_id'', ci_task_id input)]
            (w\<lparr>task_comments := insert_one r (task_comments w),
               writes := writes w @ [Insert_one ''task_comments'']\<rparr>) \<and>
     comment_id r = new_id \<and> comment_task_id r = ci_task_id input \<and>
     comment_author_email r = usr_email u"
  using assms
  by (auto simp add: Mutation_add_comment_def Let_def split: option.splits)

lemma delete_comment_success:
  assumes "Mutation_delete_comment user ident w = (Inr r, w')"
  shows "\<exists>u c.
     user = Some u \<and>
     find_one (\<lambda>c. comment_id c = ident) (task_comments w) = Some c \<and>
     comment_author_email c = usr_email u \<and>
     w' = w\<lparr>task_comments := delete_one (\<lambda>c. comment_id c = ident) (task_comments w),
            writes := writes w @ [Delete_one ''task_comments'']\<rparr>"
  using assms
  by (auto simp add: Mutation_delete_comment_def Let_def split: option.splits if_splits)

section \<open>The registry stays well-formed\<close>

lemma registry_ok_initial: "registry_ok initial_world"
  by (simp add: registry_ok_def initial_world_def)

lemma registry_ok_subscribe:
  "registry_ok w \<Longrightarrow> subscribe org w = (q, w') \<Longrightarrow> registry_ok w'"
  by (fastforce simp add: registry_ok_def subscribe_def Let_def split: option.splits if_splits)

lemma registry_ok_unsubscribe:
  "registry_ok w \<Longrightarrow> unsubscribe org q w = Inr w' \<Longrightarrow> registry_ok w'"
  by (fastforce simp add: registry_ok_def unsubscribe_def split: option.splits if_splits
      dest: notin_set_remove1)

lemma execute_keeps_registry:
  assumes "execute user m w = (r, w')"
  shows "connections w' = connections w \<and> next_queue w' = next_queue w"
  using assms
  by (cases m)
     (auto simp add: outcome_def mutation_defs Let_def prod_eq_iff split: option.splits if_splits)

lemma registry_ok_execute:
  "registry_ok w \<Longrightarrow> execute user m w = (r, w') \<Longrightarrow> registry_ok w'"
  by (drule execute_keeps_registry) (simp add: registry_ok_def)

lemma registered_once:
  "registry_ok w \<Longrightarrow> connections w org = Some qs \<Longrightarrow> q \<in> set qs \<Longrightarrow> count_list qs q = 1"
  by (simp add: registry_ok_def count_list_distinct)

lemma subscriber_receives_one:
  assumes "registry_ok w" and "connections w org = Some qs" and "q \<in> set qs"
  shows "received w (broadcast org ty data w) q = [\<lparr>ev_type = ty, ev_data = data\<rparr>]"
  using assms by (simp add: received_broadcast registered_once)

section \<open>Reading comments\<close>

text \<open>
  C1 (the code at the failing input): Alice owns \<open>o1\<close> and the comment \<open>c1\<close> hangs under
  it. Bob, who owns no organization, is refused the tasks of Alice's project, but
  \<open>task_comments\<close> hands him the comment.
\<close>

theorem task_comments_leaks_to_other_user:
  "usr_id bob \<noteq> usr_id alice \<and>
   Query_organization (Some alice) ''o1'' example_world = Inr (Some (Organization_of acme)) \<and>
   Query_tasks (Some bob) ''p1'' example_world = Inl (Exception ''Access denied'') \<and>
   Query_task_comments (Some bob) ''t1'' example_world = Inr [comment1]"
  by (simp add: Query_organization_def Query_tasks_def Query_task_comments_def example_world_def
      find_one_def find_to_list_def alice_def bob_def acme_def project1_def task1_def comment1_def)

section \<open>Unsubscribing\<close>

lemma unsubscribe_unknown_organization:
  "connections w organization_id = None \<Longrightarrow> unsubscribe organization_id queue w = Inr w"
  by (simp add: unsubscribe_def)

text \<open>
  C2 (the code at the failing input): one subscriber registers on organization \<open>o1\<close> and
  unsubscribes; the entry of \<open>o1\<close> stays in the registry with an empty list, so a second
  \<open>unsubscribe\<close> of the same channel raises \<open>ValueError\<close> instead of completing.
\<close>

theorem unsubscribe_twice_raises:
  "(case subscribe ''o1'' initial_world of (queue, w1) \<Rightarrow>
      (case unsubscribe ''o1'' queue w1 of
         Inl e \<Rightarrow> False
       | Inr w2 \<Rightarrow> connections w2 ''o1'' = Some [] \<and> unsubscribe ''o1'' queue w2 = Inl ValueError))"
  by (simp add: subscribe_def unsubscribe_def initial_world_def)

section \<open>Events of the mutations\<close>

text \<open>
  C3 (the code at the failing input): Alice deletes her comment \<open>c1\<close> under \<open>o1\<close>. The
  mutation succeeds and removes the comment, and the subscriber registered on \<open>o1\<close>
  receives nothing.
\<close>

theorem delete_comment_publishes_nothing:
  "(case Mutation_delete_comment (Some alice) ''c1'' example_world of
      (r, w') \<Rightarrow>
        r = Inr True \<and> task_comments w' = [] \<and>
        connections example_world ''o1'' = Some [0] \<and>
        received example_world w' 0 = [])"
  by (simp add: Mutation_delete_comment_def example_world_def find_one_def received_def
      alice_def comment1_def)

text \<open>
  Every successful mutation except \<open>delete_comment\<close> broadcasts one event to an organization
  of the caller: each queue gets one copy per registration under that organization.
  \<open>delete_comment\<close> puts nothing on any queue.
\<close>

lemma other_mutations_publish_once:
  assumes run: "execute user m w = (None, w')"
    and other: "\<And>ident. m \<noteq> Delete_comment ident"
  shows "\<exists>u org ev.
     user = Some u \<and> org \<in> set (organizations w) \<and> org_user_id org = usr_id u \<and>
     (\<forall>q. received w w' q =
        (case connections w (org_id org) of
           None \<Rightarrow> []
         | Some qs \<Rightarrow> replicate (count_list qs q) ev))"
proof (cases m)
  case (Create_project input new_id now)
  with run obtain r where "Mutation_create_project user input new_id now w = (Inr r, w')"
    by (auto simp add: outcome_success)
  from create_project_success [OF this] show ?thesis
    by (fastforce simp add: received_broadcast_after dest: find_one_in_set find_one_holds)
next
  case (Update_project ident input)
  with run obtain r where "Mutation_update_project user ident input w = (Inr r, w')"
    by (auto simp add: outcome_success)
  from update_project_success [OF this] show ?thesis
    by (fastforce simp add: received_broadcast_after dest: find_one_in_set find_one_holds)
next
  case (Delete_project ident)
  with run obtain r where "Mutation_delete_project user ident w = (Inr r, w')"
    by (auto simp add: outcome_success)
  from delete_project_success [OF this] show ?thesis
    by (fastforce simp add: received_broadcast_after dest: find_one_in_set find_one_holds)
next
  case (Create_task input new_id now)
  with run obtain r where "Mutation_create_task user input new_id now w = (Inr r, w')"
    by (auto simp add: outcome_success)
  from create_task_success [OF this] show ?thesis
    by (fastforce simp add: received_broadcast_after dest: find_one_in_set find_one_holds)
next
  case (Update_task ident input)
  with run obtain r where "Mutation_update_task user ident input w = (Inr r, w')"
    by (auto simp add: outcome_success)
  from update_task_success [OF this] show ?thesis
    by (fastforce simp add: received_broadcast_after dest: find_one_in_set find_one_holds)
next
  case (Delete_task ident)
  with run obtain r where "Mutation_delete_task user ident w = (Inr r, w')"
    by (auto simp add: outcome_success)
  from delete_task_success [OF this] show ?thesis
    by (fastforce simp add: received_broadcast_after dest: find_one_in_set find_one_holds)
next
  case (Add_comment input new_id now)
  with run obtain r where "Mutation_add_comment user input new_id now w = (Inr r, w')"
    by (auto simp add: outcome_success)
  from add_comment_success [OF this] show ?thesis
    by (fastforce simp add: received_broadcast_after dest: find_one_in_set find_one_holds)
next
  case (Delete_comment ident)
  with other show ?thesis by blast
qed

lemma delete_comment_silent:
  "Mutation_delete_comment user ident w = (r, w') \<Longrightarrow> received w w' q = []"
  by (auto simp add: Mutation_delete_comment_def received_def split: option.splits if_splits)

section \<open>Cascade of a project deletion\<close>

lemma filter_numbered_tasks:
  "filter (\<lambda>t. task_project_id t = ''p1'') (map numbered_task ns) = map numbered_task ns"
  by (induction ns) (simp_all add: numbered_task_def)

lemma first_thousand_ids:
  "map task_id (find_to_list (\<lambda>t. task_project_id t = ''p1'') 1000 (map numbered_task [0..<1001]))
     = map numbered_id [0..<1000]"
  by (simp add: find_to_list_def filter_numbered_tasks take_map numbered_task_def
      del: upt_rec_numeral)

lemma last_id_not_listed: "numbered_id 1000 \<notin> set (map numbered_id [0..<1000])"
  by (auto simp add: numbered_id_def simp del: upt_rec_numeral)

lemma no_numbered_task_left:
  "delete_many (\<lambda>t. task_project_id t = ''p1'') (map numbered_task ns) = []"
  by (induction ns) (simp_all add: delete_many_def numbered_task_def)

lemma find_last_task:
  "find_one (\<lambda>t. task_id t = numbered_id 1000) (map numbered_task [0..<1001])
     = Some (numbered_task 1000)"
proof -
  have split: "[0..<1001] = [0..<1000] @ [1000::nat]"
  proof -
    have "(1001::nat) = Suc 1000" by simp
    then show ?thesis by (simp only: upt_Suc_append le0)
  qed
  have none: "List.find (\<lambda>t. task_id t = numbered_id 1000) (map numbered_task [0..<1000]) = None"
    by (rule find_map_none) (auto simp add: numbered_task_def numbered_id_def)
  show ?thesis
    unfolding find_one_def split map_append find_append none
    by (simp add: numbered_task_def)
qed

lemma delete_project_large:
  "Mutation_delete_project (Some alice) ''p1'' large_world =
     (Inr True,
      large_world\<lparr>task_comments := [last_comment], tasks := [], projects := [],
        writes := [Delete_many ''task_comments'', Delete_many ''tasks'', Delete_one ''projects'']\<rparr>)"
proof -
  have p: "find_one (\<lambda>p. proj_id p = ''p1'') (projects large_world) = Some project1"
    by (simp add: find_one_def large_world_def project1_def)
  have o: "find_one (\<lambda>org. org_id org = proj_organization_id project1 \<and> org_user_id org = usr_id alice)
             (organizations large_world) = Some acme"
    by (simp add: find_one_def large_world_def project1_def acme_def alice_def)
  have t: "tasks large_world = map numbered_task [0..<1001]"
    by (simp add: large_world_def del: upt_rec_numeral)
  have c: "delete_many (\<lambda>c. comment_task_id c \<in> set (map numbered_id [0..<1000]))
             (task_comments large_world) = [last_comment]"
    using last_id_not_listed
    by (simp add: delete_many_def large_world_def last_comment_def del: upt_rec_numeral)
  have b: "connections large_world (proj_organization_id project1) = None"
    by (simp add: large_world_def)
  have wr: "writes large_world = []"
    by (simp add: large_world_def)
  have pr: "delete_one (\<lambda>p. proj_id p = ''p1'') (projects large_world) = []"
    by (simp add: large_world_def project1_def)
  show ?thesis
    unfolding Mutation_delete_project_def
    by (simp add: p o Let_def t first_thousand_ids c [unfolded t] no_numbered_task_left
        broadcast_def b pr wr del: upt_rec_numeral set_map set_upt)
qed

text \<open>
  C4 (the code at the failing input): the project \<open>p1\<close> has 1001 tasks and the last of
  them has a comment. \<open>delete_project\<close> collects the task ids through \<open>to_list(1000)\<close>,
  so it deletes the comments of the first 1000 tasks only: all tasks and the project are
  gone, the comment of task number 1000 stays and \<open>task_comments\<close> still returns it.
\<close>

theorem delete_project_leaves_comment:
  "length (tasks large_world) = 1001 \<and>
   find_one (\<lambda>t. task_id t = comment_task_id last_comment) (tasks large_world)
     = Some (numbered_task 1000) \<and>
   task_project_id (numbered_task 1000) = ''p1'' \<and>
   (case Mutation_delete_project (Some alice) ''p1'' large_world of
      (r, w') \<Rightarrow>
        r = Inr True \<and> projects w' = [] \<and> tasks w' = [] \<and>
        task_comments w' = [last_comment] \<and>
        Query_task_comments (Some alice) (numbered_id 1000) w' = Inr [last_comment])"
proof -
  have t: "tasks large_world = map numbered_task [0..<1001]"
    by (simp add: large_world_def del: upt_rec_numeral)
  have 1: "length (tasks large_world) = 1001"
    unfolding t by (simp del: upt_rec_numeral)
  have 2: "find_one (\<lambda>t. task_id t = comment_task_id last_comment) (tasks large_world)
     = Some (numbered_task 1000)"
    unfolding t using find_last_task by (simp add: last_comment_def)
  have 3: "task_project_id (numbered_task 1000) = ''p1''"
    by (simp add: numbered_task_def)
  have 4: "Query_task_comments (Some alice) (numbered_id 1000)
      (large_world\<lparr>task_comments := [last_comment], tasks := [], projects := [],
        writes := [Delete_many ''task_comments'', Delete_many ''tasks'', Delete_one ''projects'']\<rparr>)
      = Inr [last_comment]"
    by (simp add: Query_task_comments_def find_to_list_def last_comment_def)
  show ?thesis
    using 1 2 3 4 by (simp add: delete_project_large)
qed

text \<open>
  \<open>delete_project\<close> removes every task of the project; it removes every comment of those
  tasks when the project has at most 1000 of them.
\<close>

lemma delete_project_removes_tasks:
  assumes "Mutation_delete_project user ident w = (Inr r, w')"
  shows "filter (\<lambda>t. task_project_id t = ident) (tasks w') = []"
  using delete_project_success [OF assms]
  by (auto simp add: delete_many_def filter_empty_conv)

lemma delete_project_removes_comments:
  assumes run: "Mutation_delete_project user ident w = (Inr r, w')"
    and few: "count_documents (\<lambda>t. task_project_id t = ident) (tasks w) \<le> 1000"
    and c: "c \<in> set (task_comments w')"
    and t: "t \<in> set (tasks w)" "task_project_id t = ident"
  shows "comment_task_id c \<noteq> task_id t"
proof -
  from few have all: "find_to_list (\<lambda>t. task_project_id t = ident) 1000 (tasks w)
      = filter (\<lambda>t. task_project_id t = ident) (tasks w)"
    by (simp add: find_to_list_def count_documents_def)
  from delete_project_success [OF run] c
  have "comment_task_id c \<notin>
      set (map task_id (find_to_list (\<lambda>t. task_project_id t = ident) 1000 (tasks w)))"
    by (auto simp add: delete_many_def)
  with t show ?thesis
    unfolding all by auto
qed

section \<open>Leaving the subscription\<close>

lemma cancellation_unsubscribes:
  "(case organization_events ''o1'' initial_world of
      (s, w1) \<Rightarrow>
        (case raise_in_loop CancelledError s w1 of
           (e, s', w2) \<Rightarrow>
             e = None \<and> sub_position s' = Terminated \<and> connections w2 ''o1'' = Some []))"
  by (simp add: organization_events_def subscribe_def raise_in_loop_def unsubscribe_def
      initial_world_def)

lemma other_exceptions_keep_channel:
  "e \<noteq> CancelledError \<Longrightarrow> sub_position s \<noteq> Terminated \<Longrightarrow>
   raise_in_loop e s w = (Some e, s\<lparr>sub_position := Terminated\<rparr>, w)"
  by (simp add: raise_in_loop_def)

text \<open>
  C5 (the code at the failing input): a subscription on \<open>o1\<close> is open and an exception other
  than \<open>CancelledError\<close> is raised inside the loop: \<open>GeneratorExit\<close>, when the consumer
  closes the generator, or any \<open>Exception\<close>. The exception leaves the generator, the
  subscription has terminated, and its queue is still registered for \<open>o1\<close>.
\<close>

theorem error_exit_keeps_channel_registered:
  "(case organization_events ''o1'' initial_world of
      (s, w1) \<Rightarrow>
        connections w1 ''o1'' = Some [sub_queue s] \<and>
        raise_in_loop GeneratorExit s w1
          = (Some GeneratorExit, s\<lparr>sub_position := Terminated\<rparr>, w1) \<and>
        raise_in_loop (Exception ''error'') s w1
          = (Some (Exception ''error''), s\<lparr>sub_position := Terminated\<rparr>, w1))"
  by (simp add: organization_events_def subscribe_def raise_in_loop_def initial_world_def)

section \<open>Failure kinds\<close>

lemma task_ref_cases:
  "task_ref m = Some tid \<Longrightarrow>
   (\<exists>input. m = Update_task tid input) \<or> m = Delete_task tid \<or>
   (\<exists>input new_id now. m = Add_comment input new_id now \<and> ci_task_id input = tid)"
  by (cases m) auto

lemma project_ref_cases:
  "project_ref m = Some pid \<Longrightarrow>
   (\<exists>input. m = Update_project pid input) \<or> m = Delete_project pid \<or>
   (\<exists>input new_id now. m = Create_task input new_id now \<and> ti_project_id input = pid)"
  by (cases m) auto

lemma organization_ref_cases:
  "organization_ref m = Some oid \<Longrightarrow>
   (\<exists>input new_id now. m = Create_project input new_id now \<and> pi_organization_id input = oid)"
  by (cases m) auto

lemma task_missing:
  "task_ref m = Some tid \<Longrightarrow> find_one (\<lambda>t. task_id t = tid) (tasks w) = None \<Longrightarrow>
   execute (Some u) m w = (Some (Exception ''Task not found''), w)"
  by (auto dest!: task_ref_cases simp add: outcome_def mutation_defs)

lemma task_project_missing:
  "task_ref m = Some tid \<Longrightarrow> find_one (\<lambda>t. task_id t = tid) (tasks w) = Some t \<Longrightarrow>
   find_one (\<lambda>p. proj_id p = task_project_id t) (projects w) = None \<Longrightarrow>
   execute (Some u) m w = (Some (Exception ''Project not found''), w)"
  by (auto dest!: task_ref_cases simp add: outcome_def mutation_defs)

lemma task_not_owned:
  "task_ref m = Some tid \<Longrightarrow> find_one (\<lambda>t. task_id t = tid) (tasks w) = Some t \<Longrightarrow>
   find_one (\<lambda>p. proj_id p = task_project_id t) (projects w) = Some p \<Longrightarrow>
   find_one (\<lambda>org. org_id org = proj_organization_id p \<and> org_user_id org = usr_id u)
     (organizations w) = None \<Longrightarrow>
   execute (Some u) m w = (Some (Exception ''Access denied''), w)"
  by (auto dest!: task_ref_cases simp add: outcome_def mutation_defs)

lemma project_missing:
  "project_ref m = Some pid \<Longrightarrow> find_one (\<lambda>p. proj_id p = pid) (projects w) = None \<Longrightarrow>
   execute (Some u) m w = (Some (Exception ''Project not found''), w)"
  by (auto dest!: project_ref_cases simp add: outcome_def mutation_defs)

lemma project_not_owned:
  "project_ref m = Some pid \<Longrightarrow> find_one (\<lambda>p. proj_id p = pid) (projects w) = Some p \<Longrightarrow>
   find_one (\<lambda>org. org_id org = proj_organization_id p \<and> org_user_id org = usr_id u)
     (organizations w) = None \<Longrightarrow>
   execute (Some u) m w = (Some (Exception ''Access denied''), w)"
  by (auto dest!: project_ref_cases simp add: outcome_def mutation_defs)

lemma organization_not_owned:
  "organization_ref m = Some oid \<Longrightarrow>
   find_one (\<lambda>org. org_id org = oid \<and> org_user_id org = usr_id u) (organizations w) = None \<Longrightarrow>
   execute (Some u) m w = (Some (Exception ''Organization not found''), w)"
  by (auto dest!: organization_ref_cases simp add: outcome_def mutation_defs)

text \<open>
  C6 (amended): for an authenticated caller, a mutation that refers to a task fails with
  \<open>Task not found\<close> when the task id does not resolve, with \<open>Project not found\<close> when the
  task's project id does not resolve, and with \<open>Access denied\<close> when both resolve and the
  caller owns no organization with the project's organization id. A mutation that refers to
  a project, and the \<open>tasks\<close> query, fail with \<open>Project not found\<close> and \<open>Access denied\<close>
  in the same way. A failing mutation leaves the state as it was. For an organization id
  there is one outcome: when the caller owns no organization with that id, be it missing or
  owned by another user, \<open>projects\<close>, \<open>project_stats\<close> and \<open>create_project\<close> fail with
  \<open>Organization not found\<close> and \<open>organization\<close> returns null.
\<close>

theorem failure_kind_by_reference:
  "(task_ref m = Some tid \<and> find_one (\<lambda>t. task_id t = tid) (tasks w) = None \<longrightarrow>
      execute (Some u) m w = (Some (Exception ''Task not found''), w)) \<and>
   (task_ref m = Some tid \<and> find_one (\<lambda>t. task_id t = tid) (tasks w) = Some t \<and>
    find_one (\<lambda>p. proj_id p = task_project_id t) (projects w) = None \<longrightarrow>
      execute (Some u) m w = (Some (Exception ''Project not found''), w)) \<and>
   (task_ref m = Some tid \<and> find_one (\<lambda>t. task_id t = tid) (tasks w) = Some t \<and>
    find_one (\<lambda>p. proj_id p = task_project_id t) (projects w) = Some tp \<and>
    find_one (\<lambda>org. org_id org = proj_organization_id tp \<and> org_user_id org = usr_id u)
      (organizations w) = None \<longrightarrow>
      execute (Some u) m w = (Some (Exception ''Access denied''), w)) \<and>
   (find_one (\<lambda>p. proj_id p = pid) (projects w) = None \<longrightarrow>
      Query_tasks (Some u) pid w = Inl (Exception ''Project not found'') \<and>
      (project_ref m = Some pid \<longrightarrow>
         execute (Some u) m w = (Some (Exception ''Project not found''), w))) \<and>
   (find_one (\<lambda>p. proj_id p = pid) (projects w) = Some p \<and>
    find_one (\<lambda>org. org_id org = proj_organization_id p \<and> org_user_id org = usr_id u)
      (organizations w) = None \<longrightarrow>
      Query_tasks (Some u) pid w = Inl (Exception ''Access denied'') \<and>
      (project_ref m = Some pid \<longrightarrow>
         execute (Some u) m w = (Some (Exception ''Access denied''), w))) \<and>
   (find_one (\<lambda>org. org_id org = oid \<and> org_user_id org = usr_id u) (organizations w) = None \<longrightarrow>
      Query_projects (Some u) oid w = Inl (Exception ''Organization not found'') \<and>
      Query_project_stats round_rate (Some u) oid w = Inl (Exception ''Organization not found'') \<and>
      Query_organization (Some u) oid w = Inr None \<and>
      (organization_ref m = Some oid \<longrightarrow>
         execute (Some u) m w = (Some (Exception ''Organization not found''), w)))"
proof (intro conjI impI; (elim conjE)?)
  show "execute (Some u) m w = (Some (Exception ''Task not found''), w)"
    if "task_ref m = Some tid" "find_one (\<lambda>t. task_id t = tid) (tasks w) = None"
    using that by (rule task_missing)
  show "execute (Some u) m w = (Some (Exception ''Project not found''), w)"
    if "task_ref m = Some tid" "find_one (\<lambda>t. task_id t = tid) (tasks w) = Some t"
      "find_one (\<lambda>p. proj_id p = task_project_id t) (projects w) = None"
    using that by (rule task_project_missing)
  show "execute (Some u) m w = (Some (Exception ''Access denied''), w)"
    if "task_ref m = Some tid" "find_one (\<lambda>t. task_id t = tid) (tasks w) = Some t"
      "find_one (\<lambda>p. proj_id p = task_project_id t) (projects w) = Some tp"
      "find_one (\<lambda>org. org_id org = proj_organization_id tp \<and> org_user_id org = usr_id u)
         (organizations w) = None"
    using that by (rule task_not_owned)
  show "Query_tasks (Some u) pid w = Inl (Exception ''Project not found'')"
    if "find_one (\<lambda>p. proj_id p = pid) (projects w) = None"
    using that by (simp add: Query_tasks_def)
  show "execute (Some u) m w = (Some (Exception ''Project not found''), w)"
    if "find_one (\<lambda>p. proj_id p = pid) (projects w) = None" "project_ref m = Some pid"
    using that(2,1) by (rule project_missing)
  show "Query_tasks (Some u) pid w = Inl (Exception ''Access denied'')"
    if "find_one (\<lambda>p. proj_id p = pid) (projects w) = Some p"
      "find_one (\<lambda>org. org_id org = proj_organization_id p \<and> org_user_id org = usr_id u)
         (organizations w) = None"
    using that by (simp add: Query_tasks_def)
  show "execute (Some u) m w = (Some (Exception ''Access denied''), w)"
    if "find_one (\<lambda>p. proj_id p = pid) (projects w) = Some p"
      "find_one (\<lambda>org. org_id org = proj_organization_id p \<and> org_user_id org = usr_id u)
         (organizations w) = None" "project_ref m = Some pid"
    using that(3,1,2) by (rule project_not_owned)
  show "Query_projects (Some u) oid w = Inl (Exception ''Organization not found'')"
    if "find_one (\<lambda>org. org_id org = oid \<and> org_user_id org = usr_id u) (organizations w) = None"
    using that by (simp add: Query_projects_def)
  show "Query_project_stats round_rate (Some u) oid w = Inl (Exception ''Organization not found'')"
    if "find_one (\<lambda>org. org_id org = oid \<and> org_user_id org = usr_id u) (organizations w) = None"
    using that by (simp add: Query_project_stats_def)
  show "Query_organization (Some u) oid w = Inr None"
    if "find_one (\<lambda>org. org_id org = oid \<and> org_user_id org = usr_id u) (organizations w) = None"
    using that by (simp add: Query_organization_def)
  show "execute (Some u) m w = (Some (Exception ''Organization not found''), w)"
    if "find_one (\<lambda>org. org_id org = oid \<and> org_user_id org = usr_id u) (organizations w) = None"
      "organization_ref m = Some oid"
    using that(2,1) by (rule organization_not_owned)
qed

theorem failure_kind_by_reference_witness:
  "execute (Some bob) (Delete_task ''t9'') example_world
     = (Some (Exception ''Task not found''), example_world) \<and>
   execute (Some bob) (Delete_task ''t1'') (example_world\<lparr>projects := []\<rparr>)
     = (Some (Exception ''Project not found''), example_world\<lparr>projects := []\<rparr>) \<and>
   execute (Some bob) (Delete_task ''t1'') example_world
     = (Some (Exception ''Access denied''), example_world) \<and>
   Query_tasks (Some bob) ''p9'' example_world = Inl (Exception ''Project not found'') \<and>
   execute (Some bob) (Delete_project ''p9'') example_world
     = (Some (Exception ''Project not found''), example_world) \<and>
   Query_tasks (Some bob) ''p1'' example_world = Inl (Exception ''Access denied'') \<and>
   execute (Some bob) (Delete_project ''p1'') example_world
     = (Some (Exception ''Access denied''), example_world) \<and>
   Query_projects (Some bob) ''o1'' example_world = Inl (Exception ''Organization not found'') \<and>
   execute (Some bob) (Create_project new_project ''p2'' ''2024-01-07T00:00:00+00:00'') example_world
     = (Some (Exception ''Organization not found''), example_world)"
proof -
  have no_t9: "find_one (\<lambda>t. task_id t = ''t9'') (tasks example_world) = None"
    by (simp add: find_one_def example_world_def task1_def)
  have t1: "find_one (\<lambda>t. task_id t = ''t1'') (tasks example_world) = Some task1"
    by (simp add: find_one_def example_world_def task1_def)
  have t1': "find_one (\<lambda>t. task_id t = ''t1'') (tasks (example_world\<lparr>projects := []\<rparr>)) = Some task1"
    by (simp add: find_one_def example_world_def task1_def)
  have dangling:
    "find_one (\<lambda>p. proj_id p = task_project_id task1) (projects (example_world\<lparr>projects := []\<rparr>))
       = None"
    by (simp add: find_one_def)
  have tp1: "find_one (\<lambda>p. proj_id p = task_project_id task1) (projects example_world) = Some project1"
    by (simp add: find_one_def example_world_def task1_def project1_def)
  have no_p9: "find_one (\<lambda>p. proj_id p = ''p9'') (projects example_world) = None"
    by (simp add: find_one_def example_world_def project1_def)
  have p1: "find_one (\<lambda>p. proj_id p = ''p1'') (projects example_world) = Some project1"
    by (simp add: find_one_def example_world_def project1_def)
  have foreign:
    "find_one (\<lambda>org. org_id org = proj_organization_id project1 \<and> org_user_id org = usr_id bob)
       (organizations example_world) = None"
    by (simp add: find_one_def example_world_def project1_def acme_def bob_def)
  have foreign': "find_one (\<lambda>org. org_id org = ''o1'' \<and> org_user_id org = usr_id bob)
       (organizations example_world) = None"
    by (simp add: find_one_def example_world_def acme_def bob_def)
  have c1: "execute (Some bob) (Delete_task ''t9'') example_world
     = (Some (Exception ''Task not found''), example_world)"
    using failure_kind_by_reference [where m = "Delete_task ''t9''" and tid = "''t9''"
        and w = example_world and u = bob and t = task1 and tp = project1
        and pid = "''p1''" and p = project1 and oid = "''o1''" and round_rate = "\<lambda>_ _. ()"]
      no_t9
    by simp
  have c2: "execute (Some bob) (Delete_task ''t1'') (example_world\<lparr>projects := []\<rparr>)
     = (Some (Exception ''Project not found''), example_world\<lparr>projects := []\<rparr>)"
    using failure_kind_by_reference [where m = "Delete_task ''t1''" and tid = "''t1''"
        and t = task1 and w = "example_world\<lparr>projects := []\<rparr>" and u = bob and tp = project1
        and pid = "''p1''" and p = project1 and oid = "''o1''" and round_rate = "\<lambda>_ _. ()"]
      t1' dangling
    by simp
  have c3: "execute (Some bob) (Delete_task ''t1'') example_world
     = (Some (Exception ''Access denied''), example_world)"
    using failure_kind_by_reference [where m = "Delete_task ''t1''" and tid = "''t1''"
        and t = task1 and tp = project1 and w = example_world and u = bob
        and pid = "''p1''" and p = project1 and oid = "''o1''" and round_rate = "\<lambda>_ _. ()"]
      t1 tp1 foreign
    by simp
  have c4: "Query_tasks (Some bob) ''p9'' example_world = Inl (Exception ''Project not found'') \<and>
      execute (Some bob) (Delete_project ''p9'') example_world
        = (Some (Exception ''Project not found''), example_world)"
    using failure_kind_by_reference [where m = "Delete_project ''p9''" and pid = "''p9''"
        and w = example_world and u = bob and tid = "''t1''" and t = task1 and tp = project1
        and p = project1 and oid = "''o1''" and round_rate = "\<lambda>_ _. ()"]
      no_p9
    by simp
  have c5: "Query_tasks (Some bob) ''p1'' example_world = Inl (Exception ''Access denied'') \<and>
      execute (Some bob) (Delete_project ''p1'') example_world
        = (Some (Exception ''Access denied''), example_world)"
    using failure_kind_by_reference [where m = "Delete_project ''p1''" and pid = "''p1''"
        and p = project1 and w = example_world and u = bob
        and tid = "''t1''" and t = task1 and tp = project1 and oid = "''o1''"
        and round_rate = "\<lambda>_ _. ()"] p1 foreign
    by simp
  have c6: "Query_projects (Some bob) ''o1'' example_world
        = Inl (Exception ''Organization not found'') \<and>
      execute (Some bob) (Create_project new_project ''p2'' ''2024-01-07T00:00:00+00:00'')
        example_world = (Some (Exception ''Organization not found''), example_world)"
    using failure_kind_by_reference
        [where m = "Create_project new_project ''p2'' ''2024-01-07T00:00:00+00:00''"
           and oid = "''o1''" and w = example_world and u = bob
           and tid = "''t1''" and t = task1 and tp = project1 and pid = "''p1''" and p = project1
           and round_rate = "\<lambda>_ _. ()"] foreign'
    by (simp add: new_project_def)
  from c1 c2 c3 c4 c5 c6 show ?thesis by blast
qed

text \<open>
  C6 as stated fails on an organization reference: \<open>o1\<close> exists and belongs to Alice, and
  Bob gets \<open>Organization not found\<close> from \<open>projects\<close> and null from \<open>organization\<close>; the
  \<open>task\<close> query also returns null for Alice's task.
\<close>

theorem foreign_organization_counterexample:
  "find_one (\<lambda>org. org_id org = ''o1'') (organizations example_world) = Some acme \<and>
   org_user_id acme = usr_id alice \<and> usr_id bob \<noteq> usr_id alice \<and>
   Query_projects (Some bob) ''o1'' example_world = Inl (Exception ''Organization not found'') \<and>
   Query_organization (Some bob) ''o1'' example_world = Inr None \<and>
   Query_task (Some bob) ''t1'' example_world = Inr None"
  by (simp add: Query_projects_def Query_organization_def Query_task_def find_one_def
      example_world_def alice_def bob_def acme_def project1_def task1_def)

section \<open>Shape of the published events\<close>

text \<open>
  C7 (amended): every event that a successful mutation puts on a queue has one of the seven
  types \<open>PROJECT_CREATED\<close>, \<open>PROJECT_UPDATED\<close>, \<open>PROJECT_DELETED\<close>, \<open>TASK_CREATED\<close>,
  \<open>TASK_UPDATED\<close>, \<open>TASK_DELETED\<close>, \<open>COMMENT_ADDED\<close>, and its payload has the id of the
  changed entity under \<open>id\<close>. The payload of a task event has under \<open>project_id\<close> the
  project id of that task, which resolves to a stored project. The payload of a comment
  event has no \<open>project_id\<close>: it has the comment's \<open>task_id\<close>.
\<close>

theorem published_event_shape:
  assumes run: "execute user m w = (None, w')"
    and ev: "ev \<in> set (received w w' q)"
  shows "ev_type ev \<in> set [''PROJECT_CREATED'', ''PROJECT_UPDATED'', ''PROJECT_DELETED'',
                            ''TASK_CREATED'', ''TASK_UPDATED'', ''TASK_DELETED'', ''COMMENT_ADDED''] \<and>
     map_of (ev_data ev) ''id'' = Some (changed_entity m) \<and>
     (split_first (ev_type ev) = ''TASK'' \<longrightarrow>
        (\<exists>t \<in> set (tasks w @ tasks w').
           task_id t = changed_entity m \<and>
           map_of (ev_data ev) ''project_id'' = Some (task_project_id t) \<and>
           find_one (\<lambda>p. proj_id p = task_project_id t) (projects w) \<noteq> None)) \<and>
     (split_first (ev_type ev) = ''COMMENT'' \<longrightarrow>
        ev_type ev = ''COMMENT_ADDED'' \<and> map_of (ev_data ev) ''project_id'' = None \<and>
        (\<exists>c \<in> set (task_comments w').
           comment_id c = changed_entity m \<and>
           map_of (ev_data ev) ''task_id'' = Some (comment_task_id c)))"
proof (cases m)
  case (Create_project input new_id now)
  with run obtain r where "Mutation_create_project user input new_id now w = (Inr r, w')"
    by (auto simp add: outcome_success)
  from create_project_success [OF this] ev
  have "ev = \<lparr>ev_type = ''PROJECT_CREATED'', ev_data = [(''id'', new_id)]\<rparr>"
    by (auto dest!: in_received_broadcast)
  with Create_project show ?thesis by (simp add: split_first_def)
next
  case (Update_project ident input)
  with run obtain r where "Mutation_update_project user ident input w = (Inr r, w')"
    by (auto simp add: outcome_success)
  from update_project_success [OF this] ev
  have "ev = \<lparr>ev_type = ''PROJECT_UPDATED'', ev_data = [(''id'', ident)]\<rparr>"
    by (auto dest!: in_received_broadcast split: if_splits)
  with Update_project show ?thesis by (simp add: split_first_def)
next
  case (Delete_project ident)
  with run obtain r where "Mutation_delete_project user ident w = (Inr r, w')"
    by (auto simp add: outcome_success)
  from delete_project_success [OF this] ev
  have "ev = \<lparr>ev_type = ''PROJECT_DELETED'', ev_data = [(''id'', ident)]\<rparr>"
    by (auto dest!: in_received_broadcast)
  with Delete_project show ?thesis by (simp add: split_first_def)
next
  case (Create_task input new_id now)
  with run obtain r where r: "Mutation_create_task user input new_id now w = (Inr r, w')"
    by (auto simp add: outcome_success)
  from create_task_success [OF r] obtain u proj org where
    proj: "find_one (\<lambda>p. proj_id p = ti_project_id input) (projects w) = Some proj"
    and w': "w' = broadcast (proj_organization_id proj) ''TASK_CREATED''
            [(''id'', new_id), (''project_id'', ti_project_id input)]
            (w\<lparr>tasks := insert_one r (tasks w), writes := writes w @ [Insert_one ''tasks'']\<rparr>)"
    and rr: "task_id r = new_id" "task_project_id r = ti_project_id input"
    by blast
  from ev have e: "ev = \<lparr>ev_type = ''TASK_CREATED'',
                        ev_data = [(''id'', new_id), (''project_id'', ti_project_id input)]\<rparr>"
    unfolding w' by (auto dest!: in_received_broadcast)
  have "r \<in> set (tasks w')"
    unfolding w' by (simp add: insert_one_def)
  with e rr proj Create_task show ?thesis
    by (auto simp add: split_first_def)
next
  case (Update_task ident input)
  with run obtain r where r: "Mutation_update_task user ident input w = (Inr r, w')"
    by (auto simp add: outcome_success)
  from update_task_success [OF r] obtain u task proj org where
    task: "find_one (\<lambda>t. task_id t = ident) (tasks w) = Some task"
    and proj: "find_one (\<lambda>p. proj_id p = task_project_id task) (projects w) = Some proj"
    and w': "w' = broadcast (proj_organization_id proj) ''TASK_UPDATED''
            [(''id'', ident), (''project_id'', task_project_id task)]
            (if task_update_data input \<noteq> []
             then w\<lparr>tasks := update_one (\<lambda>t. task_id t = ident)
                               (fold set_task_field (task_update_data input)) (tasks w),
                    writes := writes w @ [Update_one ''tasks'']\<rparr>
             else w)"
    by blast
  from ev have e: "ev = \<lparr>ev_type = ''TASK_UPDATED'',
                        ev_data = [(''id'', ident), (''project_id'', task_project_id task)]\<rparr>"
    unfolding w' by (auto dest!: in_received_broadcast split: if_splits)
  from find_one_in_set [OF task] find_one_holds [OF task] e proj Update_task show ?thesis
    by (auto simp add: split_first_def)
next
  case (Delete_task ident)
  with run obtain r where r: "Mutation_delete_task user ident w = (Inr r, w')"
    by (auto simp add: outcome_success)
  from delete_task_success [OF r] obtain u task proj org where
    task: "find_one (\<lambda>t. task_id t = ident) (tasks w) = Some task"
    and proj: "find_one (\<lambda>p. proj_id p = task_project_id task) (projects w) = Some proj"
    and w': "w' = broadcast (proj_organization_id proj) ''TASK_DELETED''
            [(''id'', ident), (''project_id'', task_project_id task)]
            (w\<lparr>task_comments := delete_many (\<lambda>c. comment_task_id c = ident) (task_comments w),
               tasks := delete_one (\<lambda>t. task_id t = ident) (tasks w),
               writes := writes w @ [Delete_many ''task_comments'', Delete_one ''tasks'']\<rparr>)"
    by blast
  from ev have e: "ev = \<lparr>ev_type = ''TASK_DELETED'',
                        ev_data = [(''id'', ident), (''project_id'', task_project_id task)]\<rparr>"
    unfolding w' by (auto dest!: in_received_broadcast)
  from find_one_in_set [OF task] find_one_holds [OF task] e proj Delete_task show ?thesis
    by (auto simp add: split_first_def)
next
  case (Add_comment input new_id now)
  with run obtain r where r: "Mutation_add_comment user input new_id now w = (Inr r, w')"
    by (auto simp add: outcome_success)
  from add_comment_success [OF r] obtain u task proj org where
    task: "find_one (\<lambda>t. task_id t = ci_task_id input) (tasks w) = Some task"
    and proj: "find_one (\<lambda>p. proj_id p = task_project_id task) (projects w) = Some proj"
    and w': "w' = broadcast (proj_organization_id proj) ''COMMENT_ADDED''
            [(''id'', new_id), (''task_id'', ci_task_id input)]
            (w\<lparr>task_comments := insert_one r (task_comments w),
               writes := writes w @ [Insert_one ''task_comments'']\<rparr>)"
    and rr: "comment_id r = new_id" "comment_task_id r = ci_task_id input"
    by blast
  from ev have e: "ev = \<lparr>ev_type = ''COMMENT_ADDED'',
                        ev_data = [(''id'', new_id), (''task_id'', ci_task_id input)]\<rparr>"
    unfolding w' by (auto dest!: in_received_broadcast)
  have "r \<in> set (task_comments w')"
    unfolding w' by (simp add: insert_one_def)
  with e rr Add_comment show ?thesis
    by (auto simp add: split_first_def)
next
  case (Delete_comment ident)
  with run obtain r where "Mutation_delete_comment user ident w = (Inr r, w')"
    by (auto simp add: outcome_success)
  from delete_comment_success [OF this] ev show ?thesis
    by (auto simp add: received_def)
qed

theorem published_event_shape_witness:
  "execute (Some alice) (Create_task new_task ''t2'' ''2024-01-07T00:00:00+00:00'') example_world
     = (None,
        snd (execute (Some alice) (Create_task new_task ''t2'' ''2024-01-07T00:00:00+00:00'')
               example_world)) \<and>
   received example_world
     (snd (execute (Some alice) (Create_task new_task ''t2'' ''2024-01-07T00:00:00+00:00'')
             example_world)) 0
     = [\<lparr>ev_type = ''TASK_CREATED'', ev_data = [(''id'', ''t2''), (''project_id'', ''p1'')]\<rparr>] \<and>
   (\<exists>t \<in> set (tasks example_world @
               tasks (snd (execute (Some alice)
                        (Create_task new_task ''t2'' ''2024-01-07T00:00:00+00:00'') example_world))).
      task_id t = ''t2'' \<and> task_project_id t = ''p1'' \<and>
      find_one (\<lambda>p. proj_id p = task_project_id t) (projects example_world) \<noteq> None)"
proof -
  let ?m = "Create_task new_task ''t2'' ''2024-01-07T00:00:00+00:00''"
  let ?w' = "snd (execute (Some alice) ?m example_world)"
  let ?ev = "\<lparr>ev_type = ''TASK_CREATED'', ev_data = [(''id'', ''t2''), (''project_id'', ''p1'')]\<rparr>"
  have "fst (execute (Some alice) ?m example_world) = None"
    by (simp add: outcome_def Mutation_create_task_def Let_def find_one_def example_world_def
        new_task_def alice_def acme_def project1_def)
  then have run: "execute (Some alice) ?m example_world = (None, ?w')"
    by (simp add: prod_eq_iff)
  have rec: "received example_world ?w' 0 = [?ev]"
    by (simp add: outcome_def Mutation_create_task_def Let_def find_one_def example_world_def
        new_task_def alice_def acme_def project1_def received_def broadcast_def put_def)
  then have ev: "?ev \<in> set (received example_world ?w' 0)"
    by simp
  from published_event_shape [OF run ev] have
    "\<exists>t \<in> set (tasks example_world @ tasks ?w').
       task_id t = ''t2'' \<and> task_project_id t = ''p1'' \<and>
       find_one (\<lambda>p. proj_id p = task_project_id t) (projects example_world) \<noteq> None"
    by (auto simp add: split_first_def)
  with run rec show ?thesis by blast
qed

text \<open>
  C7 as stated fails for \<open>add_comment\<close>: the event type \<open>COMMENT_ADDED\<close> ends in none of
  \<open>CREATED\<close>, \<open>UPDATED\<close>, \<open>DELETED\<close>, and the payload has the keys \<open>id\<close> and
  \<open>task_id\<close> only.
\<close>

theorem add_comment_event_counterexample:
  "fst (Mutation_add_comment (Some alice) new_comment ''c2'' ''2024-01-07T00:00:00+00:00''
          example_world)
     = Inr \<lparr>comment_id = ''c2'', comment_task_id = ''t1'', comment_content = ''Hello'',
            comment_author_email = ''a@x.com'',
            comment_created_at = ''2024-01-07T00:00:00+00:00''\<rparr> \<and>
   received example_world
     (snd (Mutation_add_comment (Some alice) new_comment ''c2'' ''2024-01-07T00:00:00+00:00''
             example_world)) 0
     = [\<lparr>ev_type = ''COMMENT_ADDED'', ev_data = [(''id'', ''c2''), (''task_id'', ''t1'')]\<rparr>] \<and>
   split_first ''COMMENT_ADDED'' = ''COMMENT'' \<and>
   action_of ''COMMENT_ADDED'' = ''ADDED'' \<and>
   ''ADDED'' \<notin> set [''CREATED'', ''UPDATED'', ''DELETED''] \<and>
   map_of [(''id'', ''c2''), (''task_id'', ''t1'')] ''project_id'' = None"
  by (simp add: Mutation_add_comment_def Let_def find_one_def example_world_def new_comment_def
      alice_def acme_def project1_def task1_def received_def broadcast_def put_def insert_one_def
      split_first_def action_of_def)

section \<open>Statistics of an organization\<close>

text \<open>
  The parts of \<open>project_stats\<close> that do not depend on float arithmetic: an organization
  of the caller without projects has all counts zero and the integer rate \<open>0\<close>; the rate is
  the integer \<open>0\<close> when there is no task and the rounded float otherwise.
\<close>

lemma project_stats_no_projects:
  assumes owned: "find_one (\<lambda>org. org_id org = oid \<and> org_user_id org = usr_id u)
                    (organizations w) = Some org"
    and none: "filter (\<lambda>p. proj_organization_id p = oid) (projects w) = []"
  shows "Query_project_stats round_rate (Some u) oid w =
     Inr \<lparr>total_projects = 0, active_projects = 0, completed_projects = 0, on_hold_projects = 0,
          total_tasks = 0, completed_tasks = 0, completion_rate = PyInt 0\<rparr>"
proof -
  have sub: "filter (\<lambda>p. proj_organization_id p = oid \<and> proj_status p = s) (projects w) = []" for s
    using none by (auto simp add: filter_empty_conv)
  show ?thesis
    by (simp add: Query_project_stats_def owned Let_def count_documents_def find_to_list_def
        none sub)
qed

lemma project_stats_rate:
  assumes "Query_project_stats round_rate user oid w = Inr s"
  shows "completed_tasks s \<le> total_tasks s \<and>
     completion_rate s =
       (if total_tasks s > 0 then PyFloat (round_rate (completed_tasks s) (total_tasks s))
        else PyInt 0)"
proof -
  have le: "length (filter (\<lambda>t. P t \<and> Q t) xs) \<le> length (filter P xs)" for P Q and xs :: "task list"
    by (induction xs) auto
  have none: "filter P xs = [] \<Longrightarrow> filter (\<lambda>t. P t \<and> Q t) xs = []"
    for P Q and xs :: "task list"
    by (auto simp add: filter_empty_conv)
  from assms show ?thesis
    by (auto simp add: Query_project_stats_def Let_def count_documents_def le none
        split: option.splits if_splits)
qed

lemma round_half_even_error: "\<bar>of_int (round_half_even z) - z\<bar> \<le> 1 / 2"
proof -
  have "of_int \<lfloor>z\<rfloor> \<le> z" "z < of_int \<lfloor>z\<rfloor> + 1"
    by linarith+
  then show ?thesis
    by (auto simp add: round_half_even_def Let_def abs_le_iff)
qed

lemma floorlog_bounds_rat:
  assumes "0 < n"
  shows "(2::rat) ^ (floorlog 2 n - 1) \<le> of_nat n" "(of_nat n :: rat) < 2 ^ floorlog 2 n"
proof -
  from floorlog_bounds [of n 2] assms
  have "2 ^ (floorlog 2 n - 1) \<le> n" "n < 2 ^ floorlog 2 n" by simp_all
  then have "(of_nat (2 ^ (floorlog 2 n - 1)) :: rat) \<le> of_nat n"
      "(of_nat n :: rat) < of_nat (2 ^ floorlog 2 n)"
    unfolding of_nat_le_iff of_nat_less_iff by simp_all
  then show "(2::rat) ^ (floorlog 2 n - 1) \<le> of_nat n" "(of_nat n :: rat) < 2 ^ floorlog 2 n"
    by simp_all
qed


lemma exponent_bounds:
  assumes "0 < x"
  shows "2 powi exponent x \<le> x" "x < 2 powi (exponent x + 1)"
proof -
  obtain p q where pq: "quotient_of x = (p, q)"
    by (cases "quotient_of x")
  then have q: "0 < q" and x: "x = of_int p / of_int q"
    by (simp_all add: quotient_of_denom_pos quotient_of_div)
  with assms have p: "0 < p"
    by (simp add: zero_less_divide_iff)
  define a where "a = floorlog 2 (nat p)"
  define b where "b = floorlog 2 (nat q)"
  define P :: rat where "P = of_int p"
  define Q :: rat where "Q = of_int q"
  have P: "P = of_nat (nat p)" and Q: "Q = of_nat (nat q)"
    using p q by (simp_all add: P_def Q_def)
  have posP: "0 < P" and posQ: "0 < Q"
    using p q by (simp_all add: P_def Q_def)
  have a1: "1 \<le> a" and b1: "1 \<le> b"
    using p q by (simp_all add: a_def b_def floorlog_def)
  have "0 < nat p" "0 < nat q"
    using p q by simp_all
  note np = floorlog_bounds_rat [OF this(1)] and nq = floorlog_bounds_rat [OF this(2)]
  have Pb: "2 ^ (a - 1) \<le> P" "P < 2 ^ a"
    unfolding P a_def by (fact np)+
  have Qb: "2 ^ (b - 1) \<le> Q" "Q < 2 ^ b"
    unfolding Q b_def by (fact nq)+
  have xPQ: "x = P / Q"
    by (simp add: x P_def Q_def)
  have up: "(2::rat) powi (int a - int b + 1) = 2 ^ a / 2 ^ (b - 1)"
  proof -
    have "int a - int b + 1 = int a - int (b - 1)"
      using b1 by simp
    then have "(2::rat) powi (int a - int b + 1) = 2 powi (int a - int (b - 1))"
      by (simp only:)
    also have "\<dots> = 2 powi int a / 2 powi int (b - 1)"
      by (rule power_int_diff) simp
    finally show ?thesis
      by (simp only: power_int_of_nat)
  qed
  have lo: "(2::rat) powi (int a - int b - 1) = 2 ^ (a - 1) / 2 ^ b"
  proof -
    have "int a - int b - 1 = int (a - 1) - int b"
      using a1 by simp
    then have "(2::rat) powi (int a - int b - 1) = 2 powi (int (a - 1) - int b)"
      by (simp only:)
    also have "\<dots> = 2 powi int (a - 1) / 2 powi int b"
      by (rule power_int_diff) simp
    finally show ?thesis
      by (simp only: power_int_of_nat)
  qed
  have upper: "x < 2 powi (int a - int b + 1)"
  proof -
    have "P / Q < 2 ^ a / Q"
      using Pb(2) posQ by (simp add: divide_strict_right_mono)
    also have "\<dots> \<le> 2 ^ a / 2 ^ (b - 1)"
      using Qb(1) by (simp add: frac_le)
    finally show ?thesis
      by (simp add: xPQ up)
  qed
  have lower: "2 powi (int a - int b - 1) \<le> x"
  proof -
    have "(2::rat) ^ (a - 1) / 2 ^ b \<le> 2 ^ (a - 1) / Q"
      using Qb(2) posQ by (simp add: frac_le)
    also have "\<dots> \<le> P / Q"
      using Pb(1) posQ by (simp add: divide_right_mono)
    finally show ?thesis
      by (simp add: xPQ lo)
  qed
  have e: "exponent x =
      (if 2 powi (int a - int b) \<le> x then int a - int b else int a - int b - 1)"
    by (simp add: exponent_def pq bitlen_def a_def b_def Let_def)
  show "2 powi exponent x \<le> x"
    using lower by (simp add: e)
  show "x < 2 powi (exponent x + 1)"
    using upper by (simp add: e not_le)
qed

lemma round_half_even_nonneg: "0 \<le> z \<Longrightarrow> 0 \<le> round_half_even z"
  by (auto simp add: round_half_even_def Let_def)

lemma binary64_nonneg: "0 \<le> x \<Longrightarrow> 0 \<le> binary64 x"
  by (auto simp add: binary64_def Let_def round_half_even_nonneg sgn_if
      intro!: mult_nonneg_nonneg)

lemma binary64_error:
  assumes "0 \<le> x"
  shows "\<bar>binary64 x - x\<bar> \<le> x / 2 ^ 53 + 2 powi (- 1075)"
proof (cases "x = 0")
  case True
  then show ?thesis by (simp add: binary64_def)
next
  case False
  with assms have pos: "0 < x" by simp
  define e where "e = max (exponent x) (- 1022)"
  define q :: rat where "q = 2 powi (e - 52)"
  have q: "0 < q" by (simp add: q_def)
  have b: "binary64 x = of_int (round_half_even (x / q)) * q"
    using pos by (simp add: binary64_def Let_def e_def q_def)
  have "binary64 x - x = (of_int (round_half_even (x / q)) - x / q) * q"
    using q by (simp add: b field_simps)
  then have "\<bar>binary64 x - x\<bar> = \<bar>of_int (round_half_even (x / q)) - x / q\<bar> * q"
    using q by (simp add: abs_mult)
  also have "\<dots> \<le> 1 / 2 * q"
    using q round_half_even_error [of "x / q"] by (simp add: mult_right_mono)
  also have "1 / 2 * q = 2 powi (e - 53)"
  proof -
    have "(2::rat) powi (e - 52) = 2 powi (e - 53 + 1)" by simp
    also have "\<dots> = 2 powi (e - 53) * 2"
      by (subst power_int_add) simp_all
    finally show ?thesis by (simp add: q_def)
  qed
  also have "\<dots> \<le> x / 2 ^ 53 + 2 powi (- 1075)"
  proof (cases "- 1022 \<le> exponent x")
    case True
    then have e: "e = exponent x" by (simp add: e_def)
    have "(2::rat) powi (e - 53) = 2 powi e / 2 powi 53"
      by (rule power_int_diff) simp
    also have "\<dots> = 2 powi e / 2 ^ 53"
      by simp
    also have "\<dots> \<le> x / 2 ^ 53"
      using exponent_bounds(1) [OF pos] by (simp add: e divide_right_mono)
    also have "\<dots> \<le> x / 2 ^ 53 + 2 powi (- 1075)"
      by simp
    finally show ?thesis .
  next
    case False
    then have "e = - 1022" by (simp add: e_def)
    then show ?thesis using pos by simp
  qed
  finally show ?thesis .
qed

lemma subnormal_half_spacing: "(2::rat) powi (- 1075) \<le> 1 / 2 ^ 60"
proof -
  have "(2::rat) powi (- 1075) \<le> 2 powi (- 60)"
    by (rule power_int_increasing) simp_all
  also have "\<dots> = 1 / 2 ^ 60"
    by (simp add: power_int_minus field_simps)
  finally show ?thesis .
qed

lemma float_rate_error:
  assumes le: "c \<le> t" and pos: "0 < t"
  defines "exact \<equiv> 100 * of_nat c / (of_nat t :: rat)"
  defines "k \<equiv> round_half_even (binary64 (binary64 (of_nat c / of_nat t) * 100) * 10)"
  shows "float_rate c t = binary64 (of_int k / 10)"
    and "\<bar>of_int k / 10 - exact\<bar> \<le> 1 / 20 + 1 / 2 ^ 45"
    and "\<bar>float_rate c t - exact\<bar> \<le> 1 / 20 + 1 / 2 ^ 44"
proof -
  define a :: rat where "a = of_nat c / of_nat t"
  define y1 where "y1 = binary64 a"
  define y2 where "y2 = binary64 (y1 * 100)"
  define r :: rat where "r = of_int k / 10"
  define u :: rat where "u = 1 / 2 ^ 53"
  define s :: rat where "s = 2 powi (- 1075)"
  have s: "0 \<le> s" "128 * s \<le> u"
    using subnormal_half_spacing by (simp_all add: s_def u_def)
  have u: "0 < u" "u \<le> 1 / 1000" "256 * u = 1 / 2 ^ 45" "512 * u = 1 / 2 ^ 44"
    by (simp_all add: u_def)
  have div: "x / 2 ^ 53 = x * u" for x :: rat
    by (simp add: u_def)
  have a: "0 \<le> a" "a \<le> 1"
    using le pos by (simp_all add: a_def)
  have exact: "exact = 100 * a"
    by (simp add: exact_def a_def)
  have k: "k = round_half_even (y2 * 10)"
    by (simp add: k_def y2_def y1_def a_def)
  show rate: "float_rate c t = binary64 (of_int k / 10)"
    by (simp add: float_rate_def py_round1_def k_def)
  have y1: "0 \<le> y1" "\<bar>y1 - a\<bar> \<le> a * u + s"
    unfolding y1_def s_def div [symmetric] using a(1) by (rule binary64_nonneg, rule binary64_error)
  have "a * u \<le> 1 * u"
    using a(2) u(1) by (intro mult_right_mono) simp_all
  with y1(2) have e1: "\<bar>y1 - a\<bar> \<le> u + s"
    by linarith
  with a(2) u(2) s have y1_le: "y1 \<le> 5 / 4"
    by linarith
  have "0 \<le> y1 * 100" using y1(1) by simp
  then have y2: "0 \<le> y2" "\<bar>y2 - y1 * 100\<bar> \<le> y1 * 100 * u + s"
    unfolding y2_def s_def div [symmetric] by (rule binary64_nonneg, rule binary64_error)
  have "y1 * 100 * u \<le> 125 * u"
    using y1_le u(1) by (intro mult_right_mono) simp_all
  with y2(2) have e2: "\<bar>y2 - y1 * 100\<bar> \<le> 125 * u + s"
    by linarith
  from e1 e2 s u(1) have e3: "\<bar>y2 - exact\<bar> \<le> 256 * u"
    unfolding exact by linarith
  have "\<bar>of_int k - y2 * 10\<bar> \<le> 1 / 2"
    unfolding k by (rule round_half_even_error)
  then have e4: "\<bar>r - y2\<bar> \<le> 1 / 20"
    unfolding r_def by linarith
  from e3 e4 have near: "\<bar>r - exact\<bar> \<le> 1 / 20 + 256 * u"
    by linarith
  then show "\<bar>of_int k / 10 - exact\<bar> \<le> 1 / 20 + 1 / 2 ^ 45"
    unfolding r_def u(3) .
  have "0 \<le> k"
    unfolding k using y2(1) by (simp add: round_half_even_nonneg)
  then have r0: "0 \<le> r" by (simp add: r_def)
  have "exact \<le> 100" using a(2) by (simp add: exact)
  with near u(2) have r1: "r \<le> 101"
    by linarith
  have "\<bar>binary64 r - r\<bar> \<le> r * u + s"
    unfolding s_def div [symmetric] using r0 by (rule binary64_error)
  moreover have "r * u \<le> 101 * u"
    using r1 u(1) by (intro mult_right_mono) simp_all
  ultimately have e5: "\<bar>binary64 r - r\<bar> \<le> 101 * u + s"
    by linarith
  from near e5 s u(1) have "\<bar>binary64 r - exact\<bar> \<le> 1 / 20 + 512 * u"
    by linarith
  then show "\<bar>float_rate c t - exact\<bar> \<le> 1 / 20 + 1 / 2 ^ 44"
    unfolding rate r_def u(4) .
qed
lemma count_below: "length (filter (\<lambda>i. i < m) [0..<n]) = min m n"
  by (induction n) auto

lemma progress_counts:
  "count_documents (\<lambda>t. task_project_id t = ''p1'') (map progress_task [0..<80]) = 80"
  "count_documents (\<lambda>t. task_project_id t = ''p1'' \<and> task_status t = ''DONE'')
     (map progress_task [0..<80]) = 23"
  using count_below [of 23 80]
  by (simp_all add: count_documents_def filter_map o_def progress_task_def
      del: upt_rec_numeral)

lemma progress_stats:
  "Query_project_stats rr (Some alice) ''o1'' progress_world =
     Inr \<lparr>total_projects = 1, active_projects = 1, completed_projects = 0,
          on_hold_projects = 0, total_tasks = 80, completed_tasks = 23,
          completion_rate = PyFloat (rr 23 80)\<rparr>"
proof -
  have o: "find_one (\<lambda>org. org_id org = ''o1'' \<and> org_user_id org = usr_id alice)
             (organizations progress_world) = Some acme"
    by (simp add: find_one_def progress_world_def acme_def alice_def)
  have p: "projects progress_world = [project1]"
    and t: "tasks progress_world = map progress_task [0..<80]"
    by (simp_all add: progress_world_def del: upt_rec_numeral)
  have ids: "map proj_id (find_to_list (\<lambda>p. proj_organization_id p = ''o1'') 1000 [project1])
      = [''p1'']"
    by (simp add: find_to_list_def project1_def)
  have c: "count_documents (\<lambda>p. proj_organization_id p = ''o1'') [project1] = 1"
    "count_documents (\<lambda>p. proj_organization_id p = ''o1'' \<and> proj_status p = ''ACTIVE'')
       [project1] = 1"
    "count_documents (\<lambda>p. proj_organization_id p = ''o1'' \<and> proj_status p = ''COMPLETED'')
       [project1] = 0"
    "count_documents (\<lambda>p. proj_organization_id p = ''o1'' \<and> proj_status p = ''ON_HOLD'')
       [project1] = 0"
    by (simp_all add: count_documents_def project1_def)
  show ?thesis
    unfolding Query_project_stats_def
    by (simp add: o p t ids c Let_def progress_counts del: upt_rec_numeral)
qed
lemma project_stats_returns:
  assumes "find_one (\<lambda>org. org_id org = oid \<and> org_user_id org = usr_id u) (organizations w)
             = Some org"
  shows "\<exists>s. Query_project_stats rr (Some u) oid w = Inr s"
  using assms by (simp add: Query_project_stats_def Let_def)

text \<open>
  C8 (amended): for an organization of the caller \<open>project_stats\<close> returns, and
  \<open>completed_tasks\<close> is at most \<open>total_tasks\<close>. When \<open>total_tasks\<close> is \<open>0\<close> the rate is the
  integer \<open>0\<close>. When \<open>total_tasks\<close> is positive the rate is the float
  \<open>round(completed_tasks / total_tasks * 100, 1)\<close>: the float nearest to a number \<open>k / 10\<close>
  with one decimal digit that lies within \<open>0.05 + 2 ^ (-45)\<close> of \<open>100 \<times> completed / total\<close>, so the
  rate itself lies within \<open>0.05 + 2 ^ (-44)\<close> of it. An organization without projects has all
  counts zero and the integer rate \<open>0\<close>.
\<close>

theorem completion_rate_within_float_error:
  "find_one (\<lambda>org. org_id org = oid \<and> org_user_id org = usr_id u) (organizations w) = Some org \<longrightarrow>
   (\<exists>s. Query_project_stats float_rate (Some u) oid w = Inr s \<and>
        completed_tasks s \<le> total_tasks s \<and>
        (total_tasks s = 0 \<longrightarrow> completion_rate s = PyInt 0) \<and>
        (0 < total_tasks s \<longrightarrow>
           completion_rate s = PyFloat (float_rate (completed_tasks s) (total_tasks s)) \<and>
           (\<exists>k. float_rate (completed_tasks s) (total_tasks s) = binary64 (of_int k / 10) \<and>
                \<bar>of_int k / 10 - 100 * of_nat (completed_tasks s) / (of_nat (total_tasks s) :: rat)\<bar>
                  \<le> 1 / 20 + 1 / 2 ^ 45) \<and>
           \<bar>float_rate (completed_tasks s) (total_tasks s)
              - 100 * of_nat (completed_tasks s) / of_nat (total_tasks s)\<bar>
             \<le> 1 / 20 + 1 / 2 ^ 44) \<and>
        (filter (\<lambda>p. proj_organization_id p = oid) (projects w) = [] \<longrightarrow>
           s = \<lparr>total_projects = 0, active_projects = 0, completed_projects = 0,
                on_hold_projects = 0, total_tasks = 0, completed_tasks = 0,
                completion_rate = PyInt 0\<rparr>))"
proof
  assume owned: "find_one (\<lambda>org. org_id org = oid \<and> org_user_id org = usr_id u)
                   (organizations w) = Some org"
  then obtain s where s: "Query_project_stats float_rate (Some u) oid w = Inr s"
    using project_stats_returns by blast
  note rate = project_stats_rate [OF s]
  then have le: "completed_tasks s \<le> total_tasks s"
    by simp
  have zero: "completion_rate s = PyInt 0" if "total_tasks s = 0"
    using rate that by simp
  have pos: "completion_rate s = PyFloat (float_rate (completed_tasks s) (total_tasks s)) \<and>
      (\<exists>k. float_rate (completed_tasks s) (total_tasks s) = binary64 (of_int k / 10) \<and>
           \<bar>of_int k / 10 - 100 * of_nat (completed_tasks s) / (of_nat (total_tasks s) :: rat)\<bar>
             \<le> 1 / 20 + 1 / 2 ^ 45) \<and>
      \<bar>float_rate (completed_tasks s) (total_tasks s)
         - 100 * of_nat (completed_tasks s) / of_nat (total_tasks s)\<bar>
        \<le> 1 / 20 + 1 / 2 ^ 44"
    if "0 < total_tasks s"
  proof (intro conjI exI)
    show "completion_rate s = PyFloat (float_rate (completed_tasks s) (total_tasks s))"
      using rate that by simp
  qed (rule float_rate_error [OF le that])+
  have none: "s = \<lparr>total_projects = 0, active_projects = 0, completed_projects = 0,
                on_hold_projects = 0, total_tasks = 0, completed_tasks = 0,
                completion_rate = PyInt 0\<rparr>"
    if "filter (\<lambda>p. proj_organization_id p = oid) (projects w) = []"
    using project_stats_no_projects [OF owned that, of float_rate] s by simp
  show "\<exists>s. Query_project_stats float_rate (Some u) oid w = Inr s \<and>
        completed_tasks s \<le> total_tasks s \<and>
        (total_tasks s = 0 \<longrightarrow> completion_rate s = PyInt 0) \<and>
        (0 < total_tasks s \<longrightarrow>
           completion_rate s = PyFloat (float_rate (completed_tasks s) (total_tasks s)) \<and>
           (\<exists>k. float_rate (completed_tasks s) (total_tasks s) = binary64 (of_int k / 10) \<and>
                \<bar>of_int k / 10 - 100 * of_nat (completed_tasks s) / (of_nat (total_tasks s) :: rat)\<bar>
                  \<le> 1 / 20 + 1 / 2 ^ 45) \<and>
           \<bar>float_rate (completed_tasks s) (total_tasks s)
              - 100 * of_nat (completed_tasks s) / of_nat (total_tasks s)\<bar>
             \<le> 1 / 20 + 1 / 2 ^ 44) \<and>
        (filter (\<lambda>p. proj_organization_id p = oid) (projects w) = [] \<longrightarrow>
           s = \<lparr>total_projects = 0, active_projects = 0, completed_projects = 0,
                on_hold_projects = 0, total_tasks = 0, completed_tasks = 0,
                completion_rate = PyInt 0\<rparr>)"
  proof (rule exI [of _ s], intro conjI impI)
    show "Query_project_stats float_rate (Some u) oid w = Inr s" by (fact s)
    show "completed_tasks s \<le> total_tasks s" by (fact le)
    show "completion_rate s = PyInt 0" if "total_tasks s = 0" using that by (rule zero)
    show "completion_rate s = PyFloat (float_rate (completed_tasks s) (total_tasks s))"
      if "0 < total_tasks s" using pos [OF that] by (rule conjunct1)
    show "\<exists>k. float_rate (completed_tasks s) (total_tasks s) = binary64 (of_int k / 10) \<and>
        \<bar>of_int k / 10 - 100 * of_nat (completed_tasks s) / (of_nat (total_tasks s) :: rat)\<bar>
          \<le> 1 / 20 + 1 / 2 ^ 45"
      if "0 < total_tasks s" using pos [OF that] by (elim conjE)
    show "\<bar>float_rate (completed_tasks s) (total_tasks s)
        - 100 * of_nat (completed_tasks s) / of_nat (total_tasks s)\<bar> \<le> 1 / 20 + 1 / 2 ^ 44"
      if "0 < total_tasks s" using pos [OF that] by (elim conjE)
    show "s = \<lparr>total_projects = 0, active_projects = 0, completed_projects = 0,
                on_hold_projects = 0, total_tasks = 0, completed_tasks = 0,
                completion_rate = PyInt 0\<rparr>"
      if "filter (\<lambda>p. proj_organization_id p = oid) (projects w) = []"
      using that by (rule none)
  qed
qed
theorem completion_rate_within_float_error_witness:
  "Query_project_stats float_rate (Some alice) ''o1'' progress_world
     = Inr \<lparr>total_projects = 1, active_projects = 1, completed_projects = 0,
            on_hold_projects = 0, total_tasks = 80, completed_tasks = 23,
            completion_rate = PyFloat (float_rate 23 80)\<rparr> \<and>
   \<bar>float_rate 23 80 - 100 * 23 / 80\<bar> \<le> 1 / 20 + 1 / 2 ^ 44 \<and>
   Query_project_stats float_rate (Some alice) ''o1'' (example_world\<lparr>projects := []\<rparr>)
     = Inr \<lparr>total_projects = 0, active_projects = 0, completed_projects = 0,
            on_hold_projects = 0, total_tasks = 0, completed_tasks = 0,
            completion_rate = PyInt 0\<rparr>"
proof -
  have o: "find_one (\<lambda>org. org_id org = ''o1'' \<and> org_user_id org = usr_id alice)
             (organizations progress_world) = Some acme"
    by (simp add: find_one_def progress_world_def acme_def alice_def)
  have o': "find_one (\<lambda>org. org_id org = ''o1'' \<and> org_user_id org = usr_id alice)
             (organizations (example_world\<lparr>projects := []\<rparr>)) = Some acme"
    by (simp add: find_one_def example_world_def acme_def alice_def)
  have first: "\<bar>float_rate 23 80 - 100 * 23 / 80\<bar> \<le> 1 / 20 + 1 / 2 ^ 44"
    using completion_rate_within_float_error
        [where oid = "''o1''" and u = alice and w = progress_world and org = acme, THEN mp, OF o]
    unfolding progress_stats
    by simp
  have second: "Query_project_stats float_rate (Some alice) ''o1''
      (example_world\<lparr>projects := []\<rparr>)
     = Inr \<lparr>total_projects = 0, active_projects = 0, completed_projects = 0,
            on_hold_projects = 0, total_tasks = 0, completed_tasks = 0,
            completion_rate = PyInt 0\<rparr>"
    using completion_rate_within_float_error
        [where oid = "''o1''" and u = alice and w = "example_world\<lparr>projects := []\<rparr>"
           and org = acme, THEN mp, OF o']
    by simp
  from first second show ?thesis
    using progress_stats [of float_rate] by (intro conjI)
qed
lemma quotient_23_80: "binary64 (23 / 80) = 5179139571476070 / 2 ^ 54"
  by code_simp

lemma product_23_80: "binary64 (5179139571476070 / 2 ^ 54 * 100) = 8092405580431359 / 2 ^ 48"
  by code_simp

lemma tenths_23_80: "round_half_even (8092405580431359 / 2 ^ 48 * 10) = 287"
  by code_simp

lemma nearest_287: "binary64 (287 / 10) = 8078331831595827 / 2 ^ 48"
  by code_simp

lemma nearest_288: "binary64 (288 / 10) = 8106479329266893 / 2 ^ 48"
  by code_simp

lemma rate_23_80: "float_rate 23 80 = 8078331831595827 / 2 ^ 48"
  unfolding float_rate_def py_round1_def
  by (simp only: of_nat_numeral quotient_23_80 product_23_80 tenths_23_80 of_int_numeral
      nearest_287)

text \<open>
  C8 as stated fails with 23 of 80 tasks done: \<open>100 \<times> 23 / 80\<close> is \<open>28.75\<close>, which rounds to
  \<open>28.8\<close> to the even digit and upwards alike, and the code returns the float nearest to
  \<open>28.7\<close>, because the float product \<open>23 / 80 * 100\<close> is just below \<open>28.75\<close>.
\<close>

theorem completion_rate_23_of_80_counterexample:
  "Query_project_stats float_rate (Some alice) ''o1'' progress_world
     = Inr \<lparr>total_projects = 1, active_projects = 1, completed_projects = 0,
            on_hold_projects = 0, total_tasks = 80, completed_tasks = 23,
            completion_rate = PyFloat (8078331831595827 / 2 ^ 48)\<rparr> \<and>
   binary64 (287 / 10) = 8078331831595827 / 2 ^ 48 \<and>
   (100 * 23 / 80 :: rat) = 115 / 4 \<and>
   round_half_even (10 * (115 / 4)) = 288 \<and>
   \<lfloor>10 * (115 / 4) + 1 / 2 :: rat\<rfloor> = 288 \<and>
   binary64 (288 / 10) = 8106479329266893 / 2 ^ 48 \<and>
   (8078331831595827 / 2 ^ 48 :: rat) \<noteq> 288 / 10 \<and>
   (8078331831595827 / 2 ^ 48 :: rat) \<noteq> 8106479329266893 / 2 ^ 48"
proof (intro conjI)
  show "Query_project_stats float_rate (Some alice) ''o1'' progress_world
     = Inr \<lparr>total_projects = 1, active_projects = 1, completed_projects = 0,
            on_hold_projects = 0, total_tasks = 80, completed_tasks = 23,
            completion_rate = PyFloat (8078331831595827 / 2 ^ 48)\<rparr>"
    unfolding progress_stats rate_23_80 ..
  show "binary64 (287 / 10) = 8078331831595827 / 2 ^ 48"
    by (fact nearest_287)
  show "(100 * 23 / 80 :: rat) = 115 / 4"
    by simp
  show "round_half_even (10 * (115 / 4)) = 288"
    by code_simp
  show "\<lfloor>10 * (115 / 4) + 1 / 2 :: rat\<rfloor> = 288"
    by simp
  show "binary64 (288 / 10) = 8106479329266893 / 2 ^ 48"
    by (fact nearest_288)
  show "(8078331831595827 / 2 ^ 48 :: rat) \<noteq> 288 / 10"
    by simp
  show "(8078331831595827 / 2 ^ 48 :: rat) \<noteq> 8106479329266893 / 2 ^ 48"
    by simp
qed

section \<open>Partial updates\<close>

lemma task_update_data_empty:
  "task_update_data input = [] \<longleftrightarrow>
     tu_title input = None \<and> tu_description input = None \<and> tu_status input = None \<and>
     tu_assignee_email input = None \<and> tu_due_date input = None"
  by (auto simp add: task_update_data_def split: option.splits)

lemma set_task_fields:
  "fold set_task_field (task_update_data input) t =
     t\<lparr>task_title := (case tu_title input of None \<Rightarrow> task_title t | Some v \<Rightarrow> v),
       task_description := (case tu_description input of None \<Rightarrow> task_description t | Some v \<Rightarrow> v),
       task_status := (case tu_status input of None \<Rightarrow> task_status t | Some v \<Rightarrow> v),
       task_assignee_email :=
         (case tu_assignee_email input of None \<Rightarrow> task_assignee_email t | Some v \<Rightarrow> v),
       task_due_date := (case tu_due_date input of None \<Rightarrow> task_due_date t | Some v \<Rightarrow> Some v)\<rparr>"
  by (cases "tu_title input"; cases "tu_description input"; cases "tu_status input";
      cases "tu_assignee_email input"; cases "tu_due_date input")
     (simp_all add: task_update_data_def)

text \<open>
  C9: after a successful \<open>update_task\<close> the stored task has the same id, project and
  creation time as before, every field that the input omits keeps its stored value and every
  supplied field has the supplied value; the returned task is the stored one, no other
  document of the store changes. In particular an input with only \<open>status\<close> changes only
  the status.
\<close>

theorem update_task_keeps_omitted_fields:
  assumes run: "Mutation_update_task user ident input w = (Inr t', w')"
    and stored: "find_one (\<lambda>x. task_id x = ident) (tasks w) = Some t"
  shows "task_id t' = task_id t \<and> task_project_id t' = task_project_id t \<and>
     task_created_at t' = task_created_at t \<and>
     task_title t' = (case tu_title input of None \<Rightarrow> task_title t | Some v \<Rightarrow> v) \<and>
     task_description t' =
       (case tu_description input of None \<Rightarrow> task_description t | Some v \<Rightarrow> v) \<and>
     task_status t' = (case tu_status input of None \<Rightarrow> task_status t | Some v \<Rightarrow> v) \<and>
     task_assignee_email t' =
       (case tu_assignee_email input of None \<Rightarrow> task_assignee_email t | Some v \<Rightarrow> v) \<and>
     task_due_date t' = (case tu_due_date input of None \<Rightarrow> task_due_date t | Some v \<Rightarrow> Some v) \<and>
     find_one (\<lambda>x. task_id x = ident) (tasks w') = Some t' \<and>
     tasks w' = update_one (\<lambda>x. task_id x = ident) (\<lambda>_. t') (tasks w) \<and>
     organizations w' = organizations w \<and> projects w' = projects w \<and>
     task_comments w' = task_comments w"
proof -
  let ?P = "\<lambda>x. task_id x = ident"
  let ?f = "fold set_task_field (task_update_data input)"
  have ident: "task_id t = ident"
    using find_one_holds [OF stored] .
  have keep: "?P (?f t)"
    by (simp add: set_task_fields ident)
  from run obtain u where u: "user = Some u"
    by (cases user) (simp_all add: Mutation_update_task_def)
  from run u stored obtain proj where
    proj: "find_one (\<lambda>p. proj_id p = task_project_id t) (projects w) = Some proj"
    by (cases "find_one (\<lambda>p. proj_id p = task_project_id t) (projects w)")
       (simp_all add: Mutation_update_task_def)
  from run u stored proj obtain org where
    org: "find_one (\<lambda>org. org_id org = proj_organization_id proj \<and> org_user_id org = usr_id u)
            (organizations w) = Some org"
    by (cases "find_one (\<lambda>org. org_id org = proj_organization_id proj \<and> org_user_id org = usr_id u)
            (organizations w)")
       (simp_all add: Mutation_update_task_def)
  define w1 where
    "w1 = (if task_update_data input \<noteq> []
           then w\<lparr>tasks := update_one ?P ?f (tasks w),
                  writes := writes w @ [Update_one ''tasks'']\<rparr>
           else w)"
  from run u stored proj org
  have w': "w' = broadcast (proj_organization_id proj) ''TASK_UPDATED''
               [(''id'', ident), (''project_id'', task_project_id t)] w1"
    and t': "find_one ?P (tasks w1) = Some t'"
    unfolding w1_def
    by (auto simp add: Mutation_update_task_def Let_def split: option.splits)
  have w'_fields: "tasks w' = tasks w1" "organizations w' = organizations w"
    "projects w' = projects w" "task_comments w' = task_comments w"
    unfolding w' w1_def by simp_all
  show ?thesis
  proof (cases "task_update_data input = []")
    case True
    then have none: "tu_title input = None" "tu_description input = None" "tu_status input = None"
      "tu_assignee_email input = None" "tu_due_date input = None"
      by (simp_all add: task_update_data_empty)
    from True have tasks: "tasks w1 = tasks w" by (simp add: w1_def)
    with t' stored have "t' = t" by simp
    with none stored w'_fields tasks show ?thesis
      by (simp add: update_one_same)
  next
    case False
    then have tasks: "tasks w1 = update_one ?P ?f (tasks w)" by (simp add: w1_def)
    have "find_one ?P (tasks w1) = Some (?f t)"
      unfolding tasks using stored keep by (rule find_one_update_one)
    with t' have eq: "t' = ?f t" by simp
    have upd: "tasks w1 = update_one ?P (\<lambda>_. t') (tasks w)"
      unfolding tasks eq using stored by (rule update_one_value)
    have fields: "task_id t' = task_id t" "task_project_id t' = task_project_id t"
      "task_created_at t' = task_created_at t"
      "task_title t' = (case tu_title input of None \<Rightarrow> task_title t | Some v \<Rightarrow> v)"
      "task_description t' =
         (case tu_description input of None \<Rightarrow> task_description t | Some v \<Rightarrow> v)"
      "task_status t' = (case tu_status input of None \<Rightarrow> task_status t | Some v \<Rightarrow> v)"
      "task_assignee_email t' =
         (case tu_assignee_email input of None \<Rightarrow> task_assignee_email t | Some v \<Rightarrow> v)"
      "task_due_date t' = (case tu_due_date input of None \<Rightarrow> task_due_date t | Some v \<Rightarrow> Some v)"
      unfolding eq by (simp_all add: set_task_fields)
    from fields t' upd w'_fields show ?thesis by simp
  qed
qed

theorem update_task_keeps_omitted_fields_witness:
  "(case Mutation_update_task (Some alice) ''t1'' (status_only ''DONE'') example_world of
      (r, w') \<Rightarrow>
        r = Inr (task1\<lparr>task_status := ''DONE''\<rparr>) \<and>
        find_one (\<lambda>x. task_id x = ''t1'') (tasks w') = Some (task1\<lparr>task_status := ''DONE''\<rparr>) \<and>
        task_title (task1\<lparr>task_status := ''DONE''\<rparr>) = ''Write'' \<and>
        task_due_date (task1\<lparr>task_status := ''DONE''\<rparr>) = Some ''2024-02-01'')"
proof -
  obtain r w' where run:
    "Mutation_update_task (Some alice) ''t1'' (status_only ''DONE'') example_world = (r, w')"
    by (cases "Mutation_update_task (Some alice) ''t1'' (status_only ''DONE'') example_world")
  have "fst (Mutation_update_task (Some alice) ''t1'' (status_only ''DONE'') example_world)
          = Inr (task1\<lparr>task_status := ''DONE''\<rparr>)"
    by (simp add: Mutation_update_task_def Let_def find_one_def example_world_def status_only_def
        task_update_data_def alice_def acme_def project1_def task1_def)
  with run have r: "r = Inr (task1\<lparr>task_status := ''DONE''\<rparr>)" by simp
  have stored: "find_one (\<lambda>x. task_id x = ''t1'') (tasks example_world) = Some task1"
    by (simp add: find_one_def example_world_def task1_def)
  from update_task_keeps_omitted_fields [OF run [unfolded r] stored]
  have "find_one (\<lambda>x. task_id x = ''t1'') (tasks w') = Some (task1\<lparr>task_status := ''DONE''\<rparr>)"
    by (simp add: find_one_def example_world_def task1_def)
  with run r show ?thesis by (simp add: task1_def)
qed

section \<open>Updates without fields\<close>

lemma project_update_data_empty:
  "project_update_data input = [] \<longleftrightarrow>
     pu_name input = None \<and> pu_description input = None \<and> pu_status input = None \<and>
     pu_due_date input = None"
  by (auto simp add: project_update_data_def split: option.splits)

text \<open>
  C10: for a project (or a task) that exists and lies under an organization of the caller,
  \<open>update_project\<close> (\<open>update_task\<close>) with every input field omitted issues no write call
  and leaves all four collections as they are, returns the stored entity unchanged, and
  its only effect is one broadcast of \<open>PROJECT_UPDATED\<close> (\<open>TASK_UPDATED\<close>) to the
  entity's organization: every queue receives one copy of the event per registration under
  that organization, and nothing else.
\<close>

theorem empty_update_writes_nothing_and_publishes:
  "(pu_name pin = None \<and> pu_description pin = None \<and> pu_status pin = None \<and>
    pu_due_date pin = None \<and>
    find_one (\<lambda>p. proj_id p = pid) (projects w) = Some proj \<and>
    find_one (\<lambda>org. org_id org = proj_organization_id proj \<and> org_user_id org = usr_id u)
      (organizations w) = Some org \<longrightarrow>
    (case Mutation_update_project (Some u) pid pin w of
       (r, w') \<Rightarrow>
         r = Inr (proj,
                  count_documents (\<lambda>t. task_project_id t = pid) (tasks w),
                  count_documents (\<lambda>t. task_project_id t = pid \<and> task_status t = ''DONE'')
                    (tasks w)) \<and>
         writes w' = writes w \<and> organizations w' = organizations w \<and>
         projects w' = projects w \<and> tasks w' = tasks w \<and> task_comments w' = task_comments w \<and>
         w' = broadcast (proj_organization_id proj) ''PROJECT_UPDATED'' [(''id'', pid)] w \<and>
         (\<forall>q. received w w' q =
            (case connections w (proj_organization_id proj) of
               None \<Rightarrow> []
             | Some qs \<Rightarrow>
                 replicate (count_list qs q)
                   \<lparr>ev_type = ''PROJECT_UPDATED'', ev_data = [(''id'', pid)]\<rparr>)))) \<and>
   (tu_title tin = None \<and> tu_description tin = None \<and> tu_status tin = None \<and>
    tu_assignee_email tin = None \<and> tu_due_date tin = None \<and>
    find_one (\<lambda>t. task_id t = tid) (tasks w) = Some t \<and>
    find_one (\<lambda>p. proj_id p = task_project_id t) (projects w) = Some tproj \<and>
    find_one (\<lambda>org. org_id org = proj_organization_id tproj \<and> org_user_id org = usr_id u)
      (organizations w) = Some torg \<longrightarrow>
    (case Mutation_update_task (Some u) tid tin w of
       (r, w') \<Rightarrow>
         r = Inr t \<and>
         writes w' = writes w \<and> organizations w' = organizations w \<and>
         projects w' = projects w \<and> tasks w' = tasks w \<and> task_comments w' = task_comments w \<and>
         w' = broadcast (proj_organization_id tproj) ''TASK_UPDATED''
                [(''id'', tid), (''project_id'', task_project_id t)] w \<and>
         (\<forall>q. received w w' q =
            (case connections w (proj_organization_id tproj) of
               None \<Rightarrow> []
             | Some qs \<Rightarrow>
                 replicate (count_list qs q)
                   \<lparr>ev_type = ''TASK_UPDATED'',
                    ev_data = [(''id'', tid), (''project_id'', task_project_id t)]\<rparr>))))"
proof (intro conjI impI)
  assume a: "pu_name pin = None \<and> pu_description pin = None \<and> pu_status pin = None \<and>
    pu_due_date pin = None \<and>
    find_one (\<lambda>p. proj_id p = pid) (projects w) = Some proj \<and>
    find_one (\<lambda>org. org_id org = proj_organization_id proj \<and> org_user_id org = usr_id u)
      (organizations w) = Some org"
  then have empty: "project_update_data pin = []"
    by (simp add: project_update_data_empty)
  have run: "Mutation_update_project (Some u) pid pin w =
      (Inr (proj,
            count_documents (\<lambda>t. task_project_id t = pid) (tasks w),
            count_documents (\<lambda>t. task_project_id t = pid \<and> task_status t = ''DONE'') (tasks w)),
       broadcast (proj_organization_id proj) ''PROJECT_UPDATED'' [(''id'', pid)] w)"
    using a by (simp add: Mutation_update_project_def Let_def empty)
  show "case Mutation_update_project (Some u) pid pin w of
       (r, w') \<Rightarrow>
         r = Inr (proj,
                  count_documents (\<lambda>t. task_project_id t = pid) (tasks w),
                  count_documents (\<lambda>t. task_project_id t = pid \<and> task_status t = ''DONE'')
                    (tasks w)) \<and>
         writes w' = writes w \<and> organizations w' = organizations w \<and>
         projects w' = projects w \<and> tasks w' = tasks w \<and> task_comments w' = task_comments w \<and>
         w' = broadcast (proj_organization_id proj) ''PROJECT_UPDATED'' [(''id'', pid)] w \<and>
         (\<forall>q. received w w' q =
            (case connections w (proj_organization_id proj) of
               None \<Rightarrow> []
             | Some qs \<Rightarrow>
                 replicate (count_list qs q)
                   \<lparr>ev_type = ''PROJECT_UPDATED'', ev_data = [(''id'', pid)]\<rparr>))"
    unfolding run by (simp add: received_broadcast)
next
  assume a: "tu_title tin = None \<and> tu_description tin = None \<and> tu_status tin = None \<and>
    tu_assignee_email tin = None \<and> tu_due_date tin = None \<and>
    find_one (\<lambda>t. task_id t = tid) (tasks w) = Some t \<and>
    find_one (\<lambda>p. proj_id p = task_project_id t) (projects w) = Some tproj \<and>
    find_one (\<lambda>org. org_id org = proj_organization_id tproj \<and> org_user_id org = usr_id u)
      (organizations w) = Some torg"
  then have empty: "task_update_data tin = []"
    by (simp add: task_update_data_empty)
  have run: "Mutation_update_task (Some u) tid tin w =
      (Inr t,
       broadcast (proj_organization_id tproj) ''TASK_UPDATED''
         [(''id'', tid), (''project_id'', task_project_id t)] w)"
    using a by (simp add: Mutation_update_task_def Let_def empty)
  show "case Mutation_update_task (Some u) tid tin w of
       (r, w') \<Rightarrow>
         r = Inr t \<and>
         writes w' = writes w \<and> organizations w' = organizations w \<and>
         projects w' = projects w \<and> tasks w' = tasks w \<and> task_comments w' = task_comments w \<and>
         w' = broadcast (proj_organization_id tproj) ''TASK_UPDATED''
                [(''id'', tid), (''project_id'', task_project_id t)] w \<and>
         (\<forall>q. received w w' q =
            (case connections w (proj_organization_id tproj) of
               None \<Rightarrow> []
             | Some qs \<Rightarrow>
                 replicate (count_list qs q)
                   \<lparr>ev_type = ''TASK_UPDATED'',
                    ev_data = [(''id'', tid), (''project_id'', task_project_id t)]\<rparr>))"
    unfolding run by (simp add: received_broadcast)
qed

theorem empty_update_writes_nothing_and_publishes_witness:
  "(case Mutation_update_project (Some alice) ''p1'' no_project_changes example_world of
      (r, w') \<Rightarrow>
        r = Inr (project1, 1, 0) \<and> writes w' = [] \<and> projects w' = [project1] \<and>
        received example_world w' 0 = [\<lparr>ev_type = ''PROJECT_UPDATED'', ev_data = [(''id'', ''p1'')]\<rparr>]) \<and>
   (case Mutation_update_task (Some alice) ''t1'' no_task_changes example_world of
      (r, w') \<Rightarrow>
        r = Inr task1 \<and> writes w' = [] \<and> tasks w' = [task1] \<and>
        received example_world w' 0 =
          [\<lparr>ev_type = ''TASK_UPDATED'', ev_data = [(''id'', ''t1''), (''project_id'', ''p1'')]\<rparr>])"
  using empty_update_writes_nothing_and_publishes
    [where pin = no_project_changes and pid = "''p1''" and w = example_world and proj = project1
       and u = alice and org = acme and tin = no_task_changes and tid = "''t1''" and t = task1
       and tproj = project1 and torg = acme]
  by (simp add: no_project_changes_def no_task_changes_def example_world_def find_one_def
      count_documents_def alice_def acme_def project1_def task1_def split: prod.splits)

end
